theory Spec2Isabelle
  imports Main "HOL-Library.Word"
begin

unbundle bit_operations_syntax

section \<open>Machine types and constants\<close>

text \<open>
  The C \<^verbatim>\<open>int\<close> and \<^verbatim>\<open>unsigned int\<close> of \<^verbatim>\<open>compress.c\<close> are 32-bit words; a signed
  value is read with \<open>sint\<close>, an unsigned one with \<open>uint\<close> or \<open>unat\<close>. Arithmetic on
  them wraps around. Pointers (device nodes, backend private data, heap blocks, the
  caller's codec descriptors) are natural numbers, 0 being the null pointer of the
  last.
\<close>

type_synonym c_int = "32 word"
type_synonym c_uint = "32 word"
type_synonym u64 = "64 word"
type_synonym c_short = "16 word"

abbreviation (input) EPERM :: c_int where "EPERM \<equiv> 1"
abbreviation (input) EIO :: c_int where "EIO \<equiv> 5"
abbreviation (input) ENXIO :: c_int where "ENXIO \<equiv> 6"
abbreviation (input) ENODEV :: c_int where "ENODEV \<equiv> 19"
abbreviation (input) EINVAL :: c_int where "EINVAL \<equiv> 22"
abbreviation (input) ENODATA :: c_int where "ENODATA \<equiv> 61"
abbreviation (input) ETIME :: c_int where "ETIME \<equiv> 62"
abbreviation (input) EBADFD :: c_int where "EBADFD \<equiv> 77"

abbreviation (input) POLLIN :: c_short where "POLLIN \<equiv> 1"
abbreviation (input) POLLOUT :: c_short where "POLLOUT \<equiv> 4"
abbreviation (input) POLLERR :: c_short where "POLLERR \<equiv> 8"

text \<open>Direction flags of \<^verbatim>\<open>tinycompress.h\<close>.\<close>

abbreviation (input) COMPRESS_OUT :: c_uint where "COMPRESS_OUT \<equiv> 0x20000000"
abbreviation (input) COMPRESS_IN :: c_uint where "COMPRESS_IN \<equiv> 0x10000000"

abbreviation (input) DEFAULT_MAX_POLL_WAIT_MS :: c_int where "DEFAULT_MAX_POLL_WAIT_MS \<equiv> 20000"

text \<open>\<^verbatim>\<open>SNDRV_PROTOCOL_VERSION(0, 1, 1)\<close>, that is \<^verbatim>\<open>(0 << 16) | (1 << 8) | 1\<close>.\<close>

abbreviation (input) SNDRV_PROTOCOL_VERSION_0_1_1 :: c_int where "SNDRV_PROTOCOL_VERSION_0_1_1 \<equiv> 257"

text \<open>\<^verbatim>\<open>SND_NODE_TYPE_PLUGIN\<close> of \<^verbatim>\<open>snd_utils.h\<close>.\<close>

abbreviation (input) SND_NODE_TYPE_PLUGIN :: c_int where "SND_NODE_TYPE_PLUGIN \<equiv> 1"

section \<open>Data model\<close>

text \<open>
  A codec descriptor (\<^verbatim>\<open>struct snd_codec\<close>): the core reads its \<^verbatim>\<open>id\<close> and copies
  the rest as a block.
\<close>

record snd_codec =
  codec_id :: c_uint
  codec_rest :: nat

text \<open>
  \<^verbatim>\<open>struct compr_config\<close>. Its \<^verbatim>\<open>codec\<close> member is a pointer
  (\<^verbatim>\<open>struct snd_codec *codec\<close>): the address of a descriptor in the caller's memory.
  Copying a configuration copies the address, not the descriptor.
\<close>

record compr_config =
  fragment_size :: c_uint
  fragments :: c_uint
  codec :: nat

text \<open>\<^verbatim>\<open>struct snd_compr_params\<close>: the buffer geometry and the codec pushed to the device.\<close>

record snd_compr_params =
  buffer_fragment_size :: c_uint
  buffer_fragments :: c_uint
  params_codec :: snd_codec

text \<open>
  \<^verbatim>\<open>struct snd_compr_caps\<close>. \<open>codecs i\<close> is the word read at \<^verbatim>\<open>caps.codecs[i]\<close>; the
  scan of the capability list reads the indices below \<^verbatim>\<open>num_codecs\<close>, whatever the
  declared length of the array.
\<close>

record snd_compr_caps =
  num_codecs :: c_uint
  min_fragment_size :: c_uint
  max_fragment_size :: c_uint
  min_fragments :: c_uint
  max_fragments :: c_uint
  codecs :: "nat \<Rightarrow> c_uint"

record snd_compr_tstamp =
  pcm_io_frames :: c_uint
  sampling_rate :: c_uint

record snd_compr_avail =
  avail :: u64
  tstamp :: snd_compr_tstamp

datatype metadata_key = SNDRV_COMPRESS_ENCODER_PADDING | SNDRV_COMPRESS_ENCODER_DELAY

record snd_compr_metadata =
  key :: metadata_key
  value0 :: c_uint

record compr_gapless_mdata =
  encoder_delay :: c_uint
  encoder_padding :: c_uint

text \<open>\<^verbatim>\<open>struct timespec\<close> with 64-bit members.\<close>

record timespec =
  tv_sec :: u64
  tv_nsec :: u64

datatype backend = HW | PLUGIN

text \<open>
  \<^verbatim>\<open>struct compress\<close>. The error buffer is kept as the context message and the error
  number from which \<^verbatim>\<open>oops\<close> formats its text. \<open>config\<close> and \<open>ops\<close> are pointers:
  \<open>None\<close> is the null pointer of the zero-initialised sentinel.
\<close>

record compress =
  fd :: c_int
  flags :: c_uint
  error :: "string \<times> c_int"
  config :: "compr_config option"
  running :: c_int
  max_poll_wait_ms :: c_int
  nonblocking :: c_int
  gapless_metadata :: c_uint
  next_track :: c_uint
  ops :: "backend option"
  data :: nat
  snd_node :: nat

section \<open>The environment: backends, device nodes, allocator\<close>

text \<open>
  Everything outside \<^verbatim>\<open>compress.c\<close> acts on a world \<open>'d \<times> c_int\<close>: a device state of
  any type and \<^verbatim>\<open>errno\<close>. A backend (\<^verbatim>\<open>struct compress_ops\<close>) is a record of functions
  on it; its variadic \<^verbatim>\<open>ioctl\<close> entry is given by request shape, each request that
  fills a structure returning the structure's content after the call.
\<close>

type_synonym 'd world = "'d \<times> c_int"

datatype ctl =
  SNDRV_COMPRESS_START | SNDRV_COMPRESS_STOP | SNDRV_COMPRESS_PAUSE | SNDRV_COMPRESS_RESUME
  | SNDRV_COMPRESS_DRAIN | SNDRV_COMPRESS_PARTIAL_DRAIN | SNDRV_COMPRESS_NEXT_TRACK

record 'd compress_ops =
  ops_open :: "c_uint \<Rightarrow> c_uint \<Rightarrow> c_uint \<Rightarrow> nat \<Rightarrow> 'd world \<Rightarrow> (c_int \<times> nat) \<times> 'd world"
  ops_close :: "nat \<Rightarrow> 'd world \<Rightarrow> 'd world"
  ioctl_version :: "nat \<Rightarrow> 'd world \<Rightarrow> (c_int \<times> c_int) \<times> 'd world"
  ioctl_get_caps :: "nat \<Rightarrow> 'd world \<Rightarrow> (c_int \<times> snd_compr_caps) \<times> 'd world"
  ioctl_avail :: "nat \<Rightarrow> 'd world \<Rightarrow> (c_int \<times> snd_compr_avail) \<times> 'd world"
  ioctl_tstamp :: "nat \<Rightarrow> 'd world \<Rightarrow> (c_int \<times> snd_compr_tstamp) \<times> 'd world"
  ioctl_set_params :: "nat \<Rightarrow> snd_compr_params \<Rightarrow> 'd world \<Rightarrow> c_int \<times> 'd world"
  ioctl_set_metadata :: "nat \<Rightarrow> snd_compr_metadata \<Rightarrow> 'd world \<Rightarrow> c_int \<times> 'd world"
  ioctl_ctl :: "nat \<Rightarrow> ctl \<Rightarrow> 'd world \<Rightarrow> c_int \<times> 'd world"
  ops_read :: "nat \<Rightarrow> int \<Rightarrow> c_int \<Rightarrow> 'd world \<Rightarrow> c_int \<times> 'd world"
  ops_write :: "nat \<Rightarrow> int \<Rightarrow> c_int \<Rightarrow> 'd world \<Rightarrow> c_int \<times> 'd world"
  ops_poll :: "nat \<Rightarrow> c_short \<Rightarrow> c_int \<Rightarrow> 'd world \<Rightarrow> (c_int \<times> c_short) \<times> 'd world"

record 'd env =
  snd_utils_get_dev_node :: "c_uint \<Rightarrow> c_uint \<Rightarrow> 'd world \<Rightarrow> nat \<times> 'd world"
  snd_utils_get_node_type :: "nat \<Rightarrow> 'd world \<Rightarrow> c_int \<times> 'd world"
  snd_utils_put_dev_node :: "nat \<Rightarrow> 'd world \<Rightarrow> 'd world"
  compr_hw_ops :: "'d compress_ops"
  compr_plug_ops :: "'d compress_ops"
  calloc :: "'d world \<Rightarrow> nat option \<times> 'd world"

text \<open>
  The calls the core makes into its environment, in order. A read or a write is
  recorded with the count asked for and, last, the value the backend returned.
\<close>

datatype event =
  EvGetDevNode c_uint c_uint
  | EvGetNodeType nat
  | EvPutDevNode nat
  | EvOpen backend c_uint c_uint c_uint nat
  | EvClose nat
  | EvVersion nat
  | EvGetCaps nat
  | EvAvail nat
  | EvTstamp nat
  | EvSetParams nat snd_compr_params
  | EvSetMetadata nat snd_compr_metadata
  | EvCtl nat ctl
  | EvRead nat int c_int c_int
  | EvWrite nat int c_int c_int
  | EvPoll nat c_short c_int
  | EvCalloc
  | EvFree nat

text \<open>
  The state of the process: the world, the trace of calls made so far, the static
  sentinel \<^verbatim>\<open>bad_compress\<close>, the heap of live \<^verbatim>\<open>struct compress\<close> objects, and the
  codec descriptors in the caller's memory, by address.
\<close>

record 'd sys =
  world :: "'d world"
  trace :: "event list"
  bad_compress :: compress
  heap :: "nat \<Rightarrow> compress option"
  codec_mem :: "nat \<Rightarrow> snd_codec option"

definition errno :: "'d sys \<Rightarrow> c_int" where
  "errno s = snd (world s)"

definition set_errno :: "c_int \<Rightarrow> 'd sys \<Rightarrow> 'd sys" where
  "set_errno e s = s\<lparr>world := (fst (world s), e)\<rparr>"

definition via :: "('d world \<Rightarrow> 'a \<times> 'd world) \<Rightarrow> event \<Rightarrow> 'd sys \<Rightarrow> 'a \<times> 'd sys" where
  "via f e s = (let (r, w) = f (world s) in (r, s\<lparr>world := w, trace := trace s @ [e]\<rparr>))"

definition via_unit :: "('d world \<Rightarrow> 'd world) \<Rightarrow> event \<Rightarrow> 'd sys \<Rightarrow> 'd sys" where
  "via_unit f e s = s\<lparr>world := f (world s), trace := trace s @ [e]\<rparr>"

text \<open>The same for a call whose event records the value it returned.\<close>

definition via_result :: "('d world \<Rightarrow> 'a \<times> 'd world) \<Rightarrow> ('a \<Rightarrow> event) \<Rightarrow> 'd sys \<Rightarrow> 'a \<times> 'd sys" where
  "via_result f e s = (let (r, w) = f (world s) in (r, s\<lparr>world := w, trace := trace s @ [e r]\<rparr>))"

text \<open>
  A call either returns or leaves defined behaviour: by dereferencing a pointer that
  is null or points to no object, or by writing past the end of a heap block.
\<close>

datatype fault = BadPointer | HeapOverrun

datatype 'a exec = Returned 'a | Fault fault

text \<open>
  The read through a \<^verbatim>\<open>struct snd_codec *\<close>: the descriptor at the address, none at
  the null pointer or where the caller's memory holds no descriptor.
\<close>

definition codec_at :: "'d sys \<Rightarrow> nat \<Rightarrow> snd_codec option" where
  "codec_at s p = (if p = 0 then None else codec_mem s p)"

text \<open>
  The two backends, \<^verbatim>\<open>compr_hw_ops\<close> and \<^verbatim>\<open>compr_plug_ops\<close>, and the dereference of
  \<^verbatim>\<open>compress->ops\<close>.
\<close>

definition backend_ops :: "'d env \<Rightarrow> backend \<Rightarrow> 'd compress_ops" where
  "backend_ops env k = (case k of HW \<Rightarrow> compr_hw_ops env | PLUGIN \<Rightarrow> compr_plug_ops env)"

definition ops_of :: "'d env \<Rightarrow> compress \<Rightarrow> 'd compress_ops option" where
  "ops_of env c = map_option (backend_ops env) (ops c)"

section \<open>Error reporter and readiness\<close>

text \<open>\<^verbatim>\<open>oops\<close> records the message on the handle, sets \<^verbatim>\<open>errno\<close> and returns -1.\<close>

definition oops_at :: "compress \<Rightarrow> c_int \<Rightarrow> string \<Rightarrow> 'd sys \<Rightarrow> c_int \<times> compress \<times> 'd sys" where
  "oops_at c e fmt s = (- 1, c\<lparr>error := (fmt, e)\<rparr>, set_errno e s)"

text \<open>\<^verbatim>\<open>oops(&bad_compress, ...)\<close>: the same on the static sentinel.\<close>

definition oops_bad :: "c_int \<Rightarrow> string \<Rightarrow> 'd sys \<Rightarrow> 'd sys" where
  "oops_bad e fmt s = set_errno e (s\<lparr>bad_compress := (bad_compress s)\<lparr>error := (fmt, e)\<rparr>\<rparr>)"

definition is_compress_running :: "compress \<Rightarrow> bool" where
  "is_compress_running c = (0 \<le>s fd c \<and> running c \<noteq> 0)"

definition is_compress_ready :: "compress \<Rightarrow> bool" where
  "is_compress_ready c = (0 \<le>s fd c)"

definition get_compress_version :: "'d env \<Rightarrow> compress \<Rightarrow> 'd sys \<Rightarrow> (c_int \<times> compress \<times> 'd sys) exec" where
  "get_compress_version env c s =
     (case ops_of env c of
        None \<Rightarrow> Fault BadPointer
      | Some b \<Rightarrow>
          (let ((r, version), s1) = via (ioctl_version b (data c)) (EvVersion (data c)) s in
           if r \<noteq> 0 then
             (let (_, c1, s2) = oops_at c (errno s1) ''cant read version'' s1 in Returned (- 1, c1, s2))
           else Returned (version, c, s1)))"

section \<open>Lifecycle and gapless state machine\<close>

definition compress_partial_drain :: "'d env \<Rightarrow> compress \<Rightarrow> 'd sys \<Rightarrow> (c_int \<times> compress \<times> 'd sys) exec" where
  "compress_partial_drain env c s =
     (if \<not> is_compress_running c then Returned (oops_at c ENODEV ''device not ready'' s)
      else if next_track c = 0 then Returned (oops_at c EPERM ''next track not signalled'' s)
      else case ops_of env c of
        None \<Rightarrow> Fault BadPointer
      | Some b \<Rightarrow>
          (let (r, s1) = via (ioctl_ctl b (data c) SNDRV_COMPRESS_PARTIAL_DRAIN)
                             (EvCtl (data c) SNDRV_COMPRESS_PARTIAL_DRAIN) s in
           if r \<noteq> 0 then Returned (oops_at c (errno s1) (''cannot drain the stream'' @ [CHR 0x0A]) s1)
           else Returned (0, c\<lparr>next_track := 0\<rparr>, s1)))"

definition compress_next_track :: "'d env \<Rightarrow> compress \<Rightarrow> 'd sys \<Rightarrow> (c_int \<times> compress \<times> 'd sys) exec" where
  "compress_next_track env c s =
     (if \<not> is_compress_running c then Returned (oops_at c ENODEV ''device not ready'' s)
      else if gapless_metadata c = 0 then Returned (oops_at c EPERM ''metadata not set'' s)
      else case ops_of env c of
        None \<Rightarrow> Fault BadPointer
      | Some b \<Rightarrow>
          (let (r, s1) = via (ioctl_ctl b (data c) SNDRV_COMPRESS_NEXT_TRACK)
                             (EvCtl (data c) SNDRV_COMPRESS_NEXT_TRACK) s in
           if r \<noteq> 0 then Returned (oops_at c (errno s1) (''cannot set next track'' @ [CHR 0x0A]) s1)
           else Returned (0, c\<lparr>next_track := 1, gapless_metadata := 0\<rparr>, s1)))"

definition compress_set_gapless_metadata ::
  "'d env \<Rightarrow> compress \<Rightarrow> compr_gapless_mdata \<Rightarrow> 'd sys \<Rightarrow> (c_int \<times> compress \<times> 'd sys) exec" where
  "compress_set_gapless_metadata env c mdata s =
     (if \<not> is_compress_ready c then Returned (oops_at c ENODEV ''device not ready'' s)
      else case get_compress_version env c s of
        Fault f \<Rightarrow> Fault f
      | Returned (version, c1, s1) \<Rightarrow>
          if version \<le>s 0 then Returned (- 1, c1, s1)
          else if version <s SNDRV_PROTOCOL_VERSION_0_1_1 then
            Returned (oops_at c1 ENXIO ''gapless apis not supported in kernel'' s1)
          else (case ops_of env c1 of
            None \<Rightarrow> Fault BadPointer
          | Some b \<Rightarrow>
              (let m1 = \<lparr>key = SNDRV_COMPRESS_ENCODER_PADDING, value0 = encoder_padding mdata\<rparr>;
                   (r1, s2) = via (ioctl_set_metadata b (data c1) m1) (EvSetMetadata (data c1) m1) s1 in
               if r1 \<noteq> 0 then
                 Returned (oops_at c1 (errno s2) (''can't set metadata for stream'' @ [CHR 0x0A]) s2)
               else
                 (let m2 = \<lparr>key = SNDRV_COMPRESS_ENCODER_DELAY, value0 = encoder_delay mdata\<rparr>;
                      (r2, s3) = via (ioctl_set_metadata b (data c1) m2) (EvSetMetadata (data c1) m2) s2 in
                  if r2 \<noteq> 0 then
                    Returned (oops_at c1 (errno s3) (''can't set metadata for stream'' @ [CHR 0x0A]) s3)
                  else Returned (0, c1\<lparr>gapless_metadata := 1\<rparr>, s3)))))"

text \<open>
  \<^verbatim>\<open>compress_set_codec_params\<close>. After the guard the function reads the two buffer
  members through \<^verbatim>\<open>compress->config\<close> and copies the descriptor from the argument,
  a pointer it does not check, into the local \<^verbatim>\<open>params\<close>. The next statement,
  \<^verbatim>\<open>memcpy(&compress->config->codec, codec, sizeof(struct snd_codec))\<close>, has for
  destination the pointer member of the configuration block, which is the last
  member of the block: it writes a whole descriptor where there is room for one
  pointer, past the end of the block that \<^verbatim>\<open>compress_open\<close> allocated with
  \<^verbatim>\<open>calloc(1, sizeof(*config))\<close>. The request \<^verbatim>\<open>SNDRV_COMPRESS_SET_PARAMS\<close> and the
  store \<^verbatim>\<open>compress->next_track = 0\<close> come after that write, so no call reaches them
  in a defined state.
\<close>

definition compress_set_codec_params ::
  "'d env \<Rightarrow> compress \<Rightarrow> nat \<Rightarrow> 'd sys \<Rightarrow> (c_int \<times> compress \<times> 'd sys) exec" where
  "compress_set_codec_params env c codec_ptr s =
     (if \<not> is_compress_ready c \<or> next_track c = 0 then
        Returned (oops_at c ENODEV ''device not ready'' s)
      else case config c of
        None \<Rightarrow> Fault BadPointer
      | Some cfg \<Rightarrow>
         (case codec_at s codec_ptr of
            None \<Rightarrow> Fault BadPointer
          | Some cd \<Rightarrow> Fault HeapOverrun))"

text \<open>The transitions that take no argument beyond the control request.\<close>

definition compress_start :: "'d env \<Rightarrow> compress \<Rightarrow> 'd sys \<Rightarrow> (c_int \<times> compress \<times> 'd sys) exec" where
  "compress_start env c s =
     (if \<not> is_compress_ready c then Returned (oops_at c ENODEV ''device not ready'' s)
      else case ops_of env c of
        None \<Rightarrow> Fault BadPointer
      | Some b \<Rightarrow>
          (let (r, s1) = via (ioctl_ctl b (data c) SNDRV_COMPRESS_START)
                             (EvCtl (data c) SNDRV_COMPRESS_START) s in
           if r \<noteq> 0 then Returned (oops_at c (errno s1) ''cannot start the stream'' s1)
           else Returned (0, c\<lparr>running := 1\<rparr>, s1)))"

definition compress_stop :: "'d env \<Rightarrow> compress \<Rightarrow> 'd sys \<Rightarrow> (c_int \<times> compress \<times> 'd sys) exec" where
  "compress_stop env c s =
     (if \<not> is_compress_running c then Returned (oops_at c ENODEV ''device not ready'' s)
      else case ops_of env c of
        None \<Rightarrow> Fault BadPointer
      | Some b \<Rightarrow>
          (let (r, s1) = via (ioctl_ctl b (data c) SNDRV_COMPRESS_STOP)
                             (EvCtl (data c) SNDRV_COMPRESS_STOP) s in
           if r \<noteq> 0 then Returned (oops_at c (errno s1) ''cannot stop the stream'' s1)
           else Returned (0, c, s1)))"

definition compress_pause :: "'d env \<Rightarrow> compress \<Rightarrow> 'd sys \<Rightarrow> (c_int \<times> compress \<times> 'd sys) exec" where
  "compress_pause env c s =
     (if \<not> is_compress_running c then Returned (oops_at c ENODEV ''device not ready'' s)
      else case ops_of env c of
        None \<Rightarrow> Fault BadPointer
      | Some b \<Rightarrow>
          (let (r, s1) = via (ioctl_ctl b (data c) SNDRV_COMPRESS_PAUSE)
                             (EvCtl (data c) SNDRV_COMPRESS_PAUSE) s in
           if r \<noteq> 0 then Returned (oops_at c (errno s1) ''cannot pause the stream'' s1)
           else Returned (0, c, s1)))"

definition compress_resume :: "'d env \<Rightarrow> compress \<Rightarrow> 'd sys \<Rightarrow> (c_int \<times> compress \<times> 'd sys) exec" where
  "compress_resume env c s =
     (case ops_of env c of
        None \<Rightarrow> Fault BadPointer
      | Some b \<Rightarrow>
          (let (r, s1) = via (ioctl_ctl b (data c) SNDRV_COMPRESS_RESUME)
                             (EvCtl (data c) SNDRV_COMPRESS_RESUME) s in
           if r \<noteq> 0 then Returned (oops_at c (errno s1) ''cannot resume the stream'' s1)
           else Returned (0, c, s1)))"

definition compress_drain :: "'d env \<Rightarrow> compress \<Rightarrow> 'd sys \<Rightarrow> (c_int \<times> compress \<times> 'd sys) exec" where
  "compress_drain env c s =
     (if \<not> is_compress_running c then Returned (oops_at c ENODEV ''device not ready'' s)
      else case ops_of env c of
        None \<Rightarrow> Fault BadPointer
      | Some b \<Rightarrow>
          (let (r, s1) = via (ioctl_ctl b (data c) SNDRV_COMPRESS_DRAIN)
                             (EvCtl (data c) SNDRV_COMPRESS_DRAIN) s in
           if r \<noteq> 0 then Returned (oops_at c (errno s1) ''cannot drain the stream'' s1)
           else Returned (0, c, s1)))"

definition compress_set_max_poll_wait :: "compress \<Rightarrow> c_int \<Rightarrow> compress" where
  "compress_set_max_poll_wait c milliseconds = c\<lparr>max_poll_wait_ms := milliseconds\<rparr>"

definition compress_nonblock :: "compress \<Rightarrow> c_int \<Rightarrow> compress" where
  "compress_nonblock c nonblock = c\<lparr>nonblocking := (if nonblock \<noteq> 0 then 1 else 0)\<rparr>"

definition compress_wait :: "'d env \<Rightarrow> compress \<Rightarrow> c_int \<Rightarrow> 'd sys \<Rightarrow> (c_int \<times> compress \<times> 'd sys) exec" where
  "compress_wait env c timeout_ms s =
     (case ops_of env c of
        None \<Rightarrow> Fault BadPointer
      | Some b \<Rightarrow>
          (let ((ret, revents), s1) = via (ops_poll b (data c) (POLLOUT OR POLLIN) timeout_ms)
                                          (EvPoll (data c) (POLLOUT OR POLLIN) timeout_ms) s in
           if 0 <s ret \<and> revents AND POLLERR \<noteq> 0 then
             Returned (oops_at c EIO ''poll returned error!'' s1)
           else if 0 <s ret \<and> revents AND (POLLOUT OR POLLIN) \<noteq> 0 then Returned (0, c, s1)
           else if ret = 0 then Returned (oops_at c ETIME ''poll timed out'' s1)
           else if ret <s 0 then Returned (oops_at c (errno s1) ''poll error'' s1)
           else Returned (oops_at c EIO ''poll signalled unhandled event'' s1)))"

section \<open>Queries\<close>

text \<open>
  \<^verbatim>\<open>compress_get_hpointer\<close>. The second component is what the call stored through its
  two output pointers (\<^verbatim>\<open>*avail\<close> and \<^verbatim>\<open>*tstamp\<close>), \<open>None\<close> when it stored nothing.
  The local \<^verbatim>\<open>time\<close> is a 64-bit unsigned word; the two quotients of 32-bit members
  are taken in 32 bits and widened.
\<close>

definition compress_get_hpointer ::
  "'d env \<Rightarrow> compress \<Rightarrow> 'd sys \<Rightarrow> ((c_int \<times> compress \<times> 'd sys) \<times> (c_uint \<times> timespec) option) exec" where
  "compress_get_hpointer env c s =
     (if \<not> is_compress_ready c then Returned (oops_at c ENODEV ''device not ready'' s, None)
      else case ops_of env c of
        None \<Rightarrow> Fault BadPointer
      | Some b \<Rightarrow>
          (let ((r, kavail), s1) = via (ioctl_avail b (data c)) (EvAvail (data c)) s in
           if r \<noteq> 0 then Returned (oops_at c (errno s1) ''cannot get avail'' s1, None)
           else if sampling_rate (tstamp kavail) = 0 then
             Returned (oops_at c ENODATA ''sample rate unknown'' s1, None)
           else
             (let time1 = (ucast (pcm_io_frames (tstamp kavail) div sampling_rate (tstamp kavail)) :: u64);
                  time2 = (ucast (pcm_io_frames (tstamp kavail) mod sampling_rate (tstamp kavail)) :: u64)
              in Returned ((0, c, s1),
                   Some (ucast (avail kavail),
                         \<lparr>tv_sec = time1,
                          tv_nsec = time2 * 1000000000 div ucast (sampling_rate (tstamp kavail))\<rparr>)))))"

definition compress_get_tstamp ::
  "'d env \<Rightarrow> compress \<Rightarrow> 'd sys \<Rightarrow> ((c_int \<times> compress \<times> 'd sys) \<times> (u64 \<times> c_uint) option) exec" where
  "compress_get_tstamp env c s =
     (if \<not> is_compress_ready c then Returned (oops_at c ENODEV ''device not ready'' s, None)
      else case ops_of env c of
        None \<Rightarrow> Fault BadPointer
      | Some b \<Rightarrow>
          (let ((r, ktstamp), s1) = via (ioctl_tstamp b (data c)) (EvTstamp (data c)) s in
           if r \<noteq> 0 then Returned (oops_at c (errno s1) ''cannot get tstamp'' s1, None)
           else Returned ((0, c, s1), Some (ucast (pcm_io_frames ktstamp), sampling_rate ktstamp))))"

section \<open>Flow-controlled transfer\<close>

text \<open>
  The state of the loop of \<^verbatim>\<open>compress_write\<close> and \<^verbatim>\<open>compress_read\<close>: the remaining
  \<^verbatim>\<open>size\<close>, the cursor \<^verbatim>\<open>cbuf\<close> (as an offset into the caller's buffer), \<^verbatim>\<open>total\<close>
  and the process state. One pass of the body either leaves the function (\<open>Inl\<close>: a
  \<^verbatim>\<open>return\<close>, or a \<^verbatim>\<open>break\<close>, after which the function returns \<^verbatim>\<open>total\<close>) or goes
  round again (\<open>Inr\<close>: a \<^verbatim>\<open>continue\<close> or the end of the body).
\<close>

type_synonym 'd loop_state = "c_uint \<times> int \<times> c_int \<times> 'd sys"

datatype direction = Writing | Reading

text \<open>
  What differs between the two directions: the backend primitive called, the event
  polled for and the message of a failed transfer.
\<close>

definition primitive ::
  "direction \<Rightarrow> 'd compress_ops \<Rightarrow> nat \<Rightarrow> int \<Rightarrow> c_int \<Rightarrow> 'd world \<Rightarrow> c_int \<times> 'd world" where
  "primitive dir b = (case dir of Writing \<Rightarrow> ops_write b | Reading \<Rightarrow> ops_read b)"

definition primitive_event :: "direction \<Rightarrow> nat \<Rightarrow> int \<Rightarrow> c_int \<Rightarrow> c_int \<Rightarrow> event" where
  "primitive_event dir = (case dir of Writing \<Rightarrow> EvWrite | Reading \<Rightarrow> EvRead)"

definition poll_events :: "direction \<Rightarrow> c_short" where
  "poll_events dir = (case dir of Writing \<Rightarrow> POLLOUT | Reading \<Rightarrow> POLLIN)"

definition failure_text :: "direction \<Rightarrow> string" where
  "failure_text dir = (case dir of Writing \<Rightarrow> ''write failed!'' | Reading \<Rightarrow> ''read failed!'')"

text \<open>
  The number of bytes asked of the primitive: \<^verbatim>\<open>avail.avail\<close> converted to \<^verbatim>\<open>int\<close> when
  \<^verbatim>\<open>size > avail.avail\<close>, else \<^verbatim>\<open>size\<close>.
\<close>

definition to_transfer :: "snd_compr_avail \<Rightarrow> c_uint \<Rightarrow> c_int" where
  "to_transfer av sz = (if avail av < ucast sz then ucast (avail av) else sz)"

definition transfer ::
  "direction \<Rightarrow> 'd compress_ops \<Rightarrow> compress \<Rightarrow> snd_compr_avail \<Rightarrow> 'd loop_state
     \<Rightarrow> (c_int \<times> compress \<times> 'd sys) + 'd loop_state" where
  "transfer dir b c av st =
     (case st of (sz, cbuf, tot, s) \<Rightarrow>
        (let (n, s1) = via_result (primitive dir b (data c) cbuf (to_transfer av sz))
                                  (primitive_event dir (data c) cbuf (to_transfer av sz)) s in
         if n <s 0 then
           (if errno s1 = EBADFD then Inl (tot, c, s1)
            else Inl (oops_at c (errno s1) (failure_text dir) s1))
         else Inr (sz - n, cbuf + sint n, tot + n, s1)))"

definition loop_body ::
  "direction \<Rightarrow> 'd compress_ops \<Rightarrow> compress \<Rightarrow> c_uint \<Rightarrow> 'd loop_state
     \<Rightarrow> (c_int \<times> compress \<times> 'd sys) + 'd loop_state" where
  "loop_body dir b c frag_size st =
     (case st of (sz, cbuf, tot, s) \<Rightarrow>
        (let ((r, av), s1) = via (ioctl_avail b (data c)) (EvAvail (data c)) s in
         if r \<noteq> 0 then Inl (oops_at c (errno s1) ''cannot get avail'' s1)
         else if avail av < ucast frag_size \<and> avail av < ucast sz then
           (if nonblocking c \<noteq> 0 then Inl (tot, c, s1)
            else
              (let ((ret, revents), s2) = via (ops_poll b (data c) (poll_events dir) (max_poll_wait_ms c))
                                              (EvPoll (data c) (poll_events dir) (max_poll_wait_ms c)) s1 in
               if revents AND POLLERR \<noteq> 0 then Inl (oops_at c EIO ''poll returned error!'' s2)
               else if ret = 0 \<or> (ret <s 0 \<and> errno s2 = EBADFD) then Inl (tot, c, s2)
               else if ret <s 0 then Inl (oops_at c (errno s2) ''poll error'' s2)
               else if revents AND poll_events dir \<noteq> 0 then Inr (sz, cbuf, tot, s2)
               else transfer dir b c av (sz, cbuf, tot, s2)))
         else transfer dir b c av (sz, cbuf, tot, s1)))"

text \<open>
  \<^verbatim>\<open>while (size) { ... } return total;\<close> The loop need not end (a backend may report
  readiness for ever without making room): \<open>None\<close> is the run that never returns.
\<close>

partial_function (option) transfer_loop ::
  "direction \<Rightarrow> 'd compress_ops \<Rightarrow> compress \<Rightarrow> c_uint \<Rightarrow> 'd loop_state
     \<Rightarrow> (c_int \<times> compress \<times> 'd sys) option" where
  "transfer_loop dir b c frag_size st =
     (case st of (sz, cbuf, tot, s) \<Rightarrow>
        if sz = 0 then Some (tot, c, s)
        else (case loop_body dir b c frag_size st of
                Inl r \<Rightarrow> Some r
              | Inr st' \<Rightarrow> transfer_loop dir b c frag_size st'))"

text \<open>
  The two entry points differ in the direction flag they require, the event they poll
  for and the backend primitive. Both read \<^verbatim>\<open>compress->config->fragment_size\<close> before
  any check.
\<close>

definition direction_flag :: "direction \<Rightarrow> c_uint" where
  "direction_flag dir = (case dir of Writing \<Rightarrow> COMPRESS_IN | Reading \<Rightarrow> COMPRESS_OUT)"

definition compress_xfer ::
  "direction \<Rightarrow> 'd env \<Rightarrow> compress \<Rightarrow> c_uint \<Rightarrow> 'd sys \<Rightarrow> (c_int \<times> compress \<times> 'd sys) exec option" where
  "compress_xfer dir env c sz s =
     (case config c of
        None \<Rightarrow> Some (Fault BadPointer)
      | Some cfg \<Rightarrow>
          if flags c AND direction_flag dir = 0 then
            Some (Returned (oops_at c EINVAL ''Invalid flag set'' s))
          else if \<not> is_compress_ready c then
            Some (Returned (oops_at c ENODEV ''device not ready'' s))
          else if sz = 0 then Some (Returned (0, c, s))
          else (case ops_of env c of
                  None \<Rightarrow> Some (Fault BadPointer)
                | Some b \<Rightarrow>
                    map_option Returned (transfer_loop dir b c (fragment_size cfg) (sz, 0, 0, s))))"

definition compress_write ::
  "'d env \<Rightarrow> compress \<Rightarrow> c_uint \<Rightarrow> 'd sys \<Rightarrow> (c_int \<times> compress \<times> 'd sys) exec option" where
  "compress_write = compress_xfer Writing"

definition compress_read ::
  "'d env \<Rightarrow> compress \<Rightarrow> c_uint \<Rightarrow> 'd sys \<Rightarrow> (c_int \<times> compress \<times> 'd sys) exec option" where
  "compress_read = compress_xfer Reading"

section \<open>Capability probe\<close>

text \<open>
  The scan \<^verbatim>\<open>for (i = 0; i < caps.num_codecs; i++)\<close> from index \<open>i\<close> on. Every pass
  reads \<^verbatim>\<open>codec->id\<close> through the caller's pointer; \<open>cd\<close> is what that read finds.
\<close>

function scan_codecs :: "snd_compr_caps \<Rightarrow> snd_codec option \<Rightarrow> nat \<Rightarrow> bool exec" where
  "scan_codecs caps cd i =
     (if i < unat (num_codecs caps) then
        (case cd of
           None \<Rightarrow> Fault BadPointer
         | Some d \<Rightarrow> if codecs caps i = codec_id d then Returned True else scan_codecs caps cd (Suc i))
      else Returned False)"
  by pat_completeness auto
termination
  by (relation "measure (\<lambda>(caps, cd, i). unat (num_codecs caps) - i)") auto

declare scan_codecs.simps [simp del]

definition is_codec_type_supported ::
  "'d compress_ops \<Rightarrow> nat \<Rightarrow> nat \<Rightarrow> 'd sys \<Rightarrow> (bool \<times> 'd sys) exec" where
  "is_codec_type_supported b dat codec_ptr s =
     (let ((r, caps), s1) = via (ioctl_get_caps b dat) (EvGetCaps dat) s in
      if r \<noteq> 0 then Returned (False, oops_bad (errno s1) ''cannot get device caps'' s1)
      else (case scan_codecs caps (codec_at s1 codec_ptr) 0 of
              Fault f \<Rightarrow> Fault f
            | Returned found \<Rightarrow> Returned (found, s1)))"

text \<open>Backend selection by node type, as in \<^verbatim>\<open>compress_open\<close> and \<^verbatim>\<open>is_codec_supported\<close>.\<close>

definition select_backend :: "c_int \<Rightarrow> backend" where
  "select_backend compress_type = (if compress_type = SND_NODE_TYPE_PLUGIN then PLUGIN else HW)"

text \<open>\<^verbatim>\<open>is_codec_supported\<close>; the backend is opened with a null node (pointer 0).\<close>

definition is_codec_supported ::
  "'d env \<Rightarrow> c_uint \<Rightarrow> c_uint \<Rightarrow> c_uint \<Rightarrow> nat \<Rightarrow> 'd sys \<Rightarrow> (bool \<times> 'd sys) exec" where
  "is_codec_supported env crd device fl codec_ptr s =
     (let (node, s1) = via (snd_utils_get_dev_node env crd device) (EvGetDevNode crd device) s;
          (compress_type, s2) = via (snd_utils_get_node_type env node) (EvGetNodeType node) s1;
          k = select_backend compress_type;
          b = backend_ops env k;
          ((fd1, dat), s3) = via (ops_open b crd device fl 0) (EvOpen k crd device fl 0) s2 in
      if fd1 <s 0 then Returned (False, oops_bad (errno s3) ''cannot open card %u, device %u'' s3)
      else
        (case is_codec_type_supported b dat codec_ptr s3 of
           Fault f \<Rightarrow> Fault f
         | Returned (ret, s4) \<Rightarrow>
            (let s5 = via_unit (snd_utils_put_dev_node env node) (EvPutDevNode node) s4;
                 s6 = via_unit (ops_close b dat) (EvClose dat) s5
             in Returned (ret, s6))))"

section \<open>Stream handle: open and close\<close>

text \<open>
  A \<^verbatim>\<open>struct compress *\<close> is the address of the static sentinel or of a heap block.
  A block enters the heap, with the configuration block it owns, when \<^verbatim>\<open>compress_open\<close>
  succeeds, and leaves it in \<^verbatim>\<open>compress_close\<close>; the frees of a failed open release
  blocks that never entered it.
\<close>

datatype compress_ptr = BadCompress | Ptr nat

text \<open>The block \<^verbatim>\<open>calloc\<close> returns: every member zero, every pointer null.\<close>

definition zeroed :: compress where
  "zeroed = \<lparr>fd = 0, flags = 0, error = ([], 0), config = None, running = 0,
             max_poll_wait_ms = 0, nonblocking = 0, gapless_metadata = 0, next_track = 0,
             ops = None, data = 0, snd_node = 0\<rparr>"

text \<open>The static initialiser \<^verbatim>\<open>{ .fd = -1 }\<close>.\<close>

definition bad_compress_init :: compress where
  "bad_compress_init = zeroed\<lparr>fd := - 1\<rparr>"

text \<open>
  The first part of \<^verbatim>\<open>compress_open\<close>, up to the backend's \<^verbatim>\<open>open\<close>: either the state
  in which the sentinel is returned, or the address of the new object, the backend
  selected, the object and the state.
\<close>

definition open_device ::
  "'d env \<Rightarrow> c_uint \<Rightarrow> c_uint \<Rightarrow> c_uint \<Rightarrow> 'd sys \<Rightarrow> 'd sys + (nat \<times> backend \<times> compress \<times> 'd sys)" where
  "open_device env crd device fl s =
     (let (p, s1) = via (calloc env) EvCalloc s in
      case p of
        None \<Rightarrow> Inl (oops_bad (errno s1) ''cannot allocate compress object'' s1)
      | Some a \<Rightarrow>
         (let c0 = zeroed\<lparr>next_track := 0, gapless_metadata := 0\<rparr>;
              (q, s2) = via (calloc env) EvCalloc s1 in
          case q of
            None \<Rightarrow> Inl s2
          | Some _ \<Rightarrow>
             (let c1 = c0\<lparr>config := Some \<lparr>fragment_size = 0, fragments = 0, codec = 0\<rparr>,
                          max_poll_wait_ms := DEFAULT_MAX_POLL_WAIT_MS, flags := fl\<rparr> in
              if fl AND COMPRESS_OUT = 0 \<and> fl AND COMPRESS_IN = 0 then
                Inl (oops_bad EINVAL ''can't deduce device direction from given flags'' s2)
              else
                (let (node, s3) = via (snd_utils_get_dev_node env crd device)
                                      (EvGetDevNode crd device) s2;
                     (compress_type, s4) = via (snd_utils_get_node_type env node)
                                               (EvGetNodeType node) s3;
                     k = select_backend compress_type;
                     ((fd1, dat), s5) = via (ops_open (backend_ops env k) crd device fl node)
                                            (EvOpen k crd device fl node) s4;
                     c2 = c1\<lparr>snd_node := node, ops := Some k, data := dat, fd := fd1\<rparr> in
                 if fd1 <s 0 then
                   Inl (oops_bad (errno s5) ''cannot open card(%u) device(%u)'' s5)
                 else Inr (a, k, c2, s5)))))"

text \<open>The exit \<^verbatim>\<open>codec_fail\<close>: the node is released and the connection closed.\<close>

definition codec_fail :: "'d env \<Rightarrow> backend \<Rightarrow> compress \<Rightarrow> 'd sys \<Rightarrow> 'd sys" where
  "codec_fail env k c s =
     via_unit (ops_close (backend_ops env k) (data c)) (EvClose (data c))
       (via_unit (snd_utils_put_dev_node env (snd_node c)) (EvPutDevNode (snd_node c)) s)"

text \<open>
  \<^verbatim>\<open>compress_open\<close>. The result is the pointer returned, the caller's configuration
  after the call (the function writes the defaults into it) and the state. The copy
  into the handle's block takes the codec pointer as it is; \<^verbatim>\<open>fill_compress_params\<close>
  then reads the descriptor through it, without a check.
\<close>

definition compress_open ::
  "'d env \<Rightarrow> c_uint \<Rightarrow> c_uint \<Rightarrow> c_uint \<Rightarrow> compr_config option \<Rightarrow> 'd sys
     \<Rightarrow> (compress_ptr \<times> compr_config option \<times> 'd sys) exec" where
  "compress_open env crd device fl config_ptr s =
     (case config_ptr of
        None \<Rightarrow> Returned (BadCompress, None, oops_bad EINVAL ''passed bad config'' s)
      | Some cfg \<Rightarrow>
         (case open_device env crd device fl s of
            Inl s1 \<Rightarrow> Returned (BadCompress, Some cfg, s1)
          | Inr (a, k, c, s1) \<Rightarrow>
             (let b = backend_ops env k;
                  ((r, caps), s2) = via (ioctl_get_caps b (data c)) (EvGetCaps (data c)) s1 in
              if r \<noteq> 0 then
                Returned (BadCompress, Some cfg, codec_fail env k c (set_errno (errno s2) s2))
              else
                (let cfg1 = (if fragment_size cfg = 0 \<or> fragments cfg = 0 then
                               cfg\<lparr>fragment_size := min_fragment_size caps,
                                   fragments := max_fragments caps\<rparr>
                             else cfg);
                     c1 = c\<lparr>config := Some cfg1\<rparr> in
                 case codec_at s2 (codec cfg1) of
                   None \<Rightarrow> Fault BadPointer
                 | Some cd \<Rightarrow>
                    (let params = \<lparr>buffer_fragment_size = fragment_size cfg1,
                                  buffer_fragments = fragments cfg1, params_codec = cd\<rparr>;
                         (r1, s3) = via (ioctl_set_params b (data c1) params)
                                        (EvSetParams (data c1) params) s2 in
                     if r1 \<noteq> 0 then
                       Returned (BadCompress, Some cfg1,
                                 codec_fail env k c1 (oops_bad (errno s3) ''cannot set device'' s3))
                     else Returned (Ptr a, Some cfg1, s3\<lparr>heap := (heap s3)(a := Some c1)\<rparr>))))))"

text \<open>
  \<^verbatim>\<open>compress_close\<close>. A pointer to no live object is a fault; the stores to \<^verbatim>\<open>running\<close>
  and \<^verbatim>\<open>fd\<close> go into the block that is then freed.
\<close>

definition compress_close :: "'d env \<Rightarrow> compress_ptr \<Rightarrow> 'd sys \<Rightarrow> 'd sys exec" where
  "compress_close env p s =
     (case p of
        BadCompress \<Rightarrow> Returned s
      | Ptr a \<Rightarrow>
         (case heap s a of
            None \<Rightarrow> Fault BadPointer
          | Some c \<Rightarrow>
             (let s1 = via_unit (snd_utils_put_dev_node env (snd_node c)) (EvPutDevNode (snd_node c)) s in
              case ops_of env c of
                None \<Rightarrow> Fault BadPointer
              | Some b \<Rightarrow>
                 (let s2 = via_unit (ops_close b (data c)) (EvClose (data c)) s1 in
                  Returned (s2\<lparr>heap := (heap s2)(a := None)\<rparr>)))))"

primrec close_times :: "nat \<Rightarrow> 'd env \<Rightarrow> compress_ptr \<Rightarrow> 'd sys \<Rightarrow> 'd sys exec" where
  "close_times 0 env p s = Returned s"
| "close_times (Suc n) env p s =
     (case compress_close env p s of Fault f \<Rightarrow> Fault f | Returned s1 \<Rightarrow> close_times n env p s1)"

section \<open>Sequences of calls on one handle\<close>

text \<open>
  The operations a caller may apply to an open handle, and a run of them in order. A
  run records each call with the value it returned; it stops at a fault, and has no
  result when a transfer never returns.
\<close>

datatype call =
  Start | Stop | Pause | Resume | Drain | PartialDrain | NextTrack
  | SetGaplessMetadata compr_gapless_mdata
  | SetCodecParams nat
  | GetHpointer | GetTstamp
  | Write c_uint | Read c_uint
  | SetMaxPollWait c_int | Nonblock c_int | Wait c_int

definition api :: "'d env \<Rightarrow> call \<Rightarrow> compress \<Rightarrow> 'd sys \<Rightarrow> (c_int \<times> compress \<times> 'd sys) exec option" where
  "api env x c s =
     (case x of
        Start \<Rightarrow> Some (compress_start env c s)
      | Stop \<Rightarrow> Some (compress_stop env c s)
      | Pause \<Rightarrow> Some (compress_pause env c s)
      | Resume \<Rightarrow> Some (compress_resume env c s)
      | Drain \<Rightarrow> Some (compress_drain env c s)
      | PartialDrain \<Rightarrow> Some (compress_partial_drain env c s)
      | NextTrack \<Rightarrow> Some (compress_next_track env c s)
      | SetGaplessMetadata m \<Rightarrow> Some (compress_set_gapless_metadata env c m s)
      | SetCodecParams cd \<Rightarrow> Some (compress_set_codec_params env c cd s)
      | GetHpointer \<Rightarrow>
          Some (case compress_get_hpointer env c s of Fault f \<Rightarrow> Fault f | Returned (r, _) \<Rightarrow> Returned r)
      | GetTstamp \<Rightarrow>
          Some (case compress_get_tstamp env c s of Fault f \<Rightarrow> Fault f | Returned (r, _) \<Rightarrow> Returned r)
      | Write n \<Rightarrow> compress_write env c n s
      | Read n \<Rightarrow> compress_read env c n s
      | SetMaxPollWait ms \<Rightarrow> Some (Returned (0, compress_set_max_poll_wait c ms, s))
      | Nonblock nb \<Rightarrow> Some (Returned (0, compress_nonblock c nb, s))
      | Wait ms \<Rightarrow> Some (compress_wait env c ms s))"

type_synonym history = "(call \<times> c_int) list"

fun run :: "'d env \<Rightarrow> call list \<Rightarrow> compress \<Rightarrow> 'd sys \<Rightarrow> (history \<times> compress \<times> 'd sys) exec option" where
  "run env [] c s = Some (Returned ([], c, s))"
| "run env (x # xs) c s =
     (case api env x c s of
        None \<Rightarrow> None
      | Some (Fault f) \<Rightarrow> Some (Fault f)
      | Some (Returned (r, c1, s1)) \<Rightarrow>
         (case run env xs c1 s1 of
            None \<Rightarrow> None
          | Some (Fault f) \<Rightarrow> Some (Fault f)
          | Some (Returned (h, c2, s2)) \<Rightarrow> Some (Returned ((x, r) # h, c2, s2))))"

text \<open>
  In the words of the specification: a next track is pending when \<^verbatim>\<open>next_track\<close>
  has succeeded since the last successful \<^verbatim>\<open>partial_drain\<close>.
\<close>

fun pending_after :: "bool \<Rightarrow> history \<Rightarrow> bool" where
  "pending_after p [] = p"
| "pending_after p ((x, r) # h) =
     pending_after (if x = NextTrack \<and> r = 0 then True
                    else if x = PartialDrain \<and> r = 0 then False else p) h"

definition succeeded_gapless :: "call \<times> c_int \<Rightarrow> bool" where
  "succeeded_gapless e = (case e of (SetGaplessMetadata _, r) \<Rightarrow> r = 0 | _ \<Rightarrow> False)"

section \<open>Transfers: the backend's contract and the running total\<close>










section \<open>A sample device\<close>

text \<open>
  A backend on which every request succeeds, with two codecs, 4096 bytes available
  and a 48 kHz clock; an environment built on it whose device state counts the blocks
  allocated; a caller whose memory holds one codec descriptor, at address 21; and an
  open, running playback handle on the device, configured with that descriptor.
\<close>

definition demo_caps :: snd_compr_caps where
  "demo_caps = \<lparr>num_codecs = 2, min_fragment_size = 1024, max_fragment_size = 65536,
                 min_fragments = 2, max_fragments = 8,
                 codecs = (\<lambda>i. if i = 0 then 1 else if i = 1 then 3 else 0)\<rparr>"

definition demo_avail :: snd_compr_avail where
  "demo_avail = \<lparr>avail = 4096, tstamp = \<lparr>pcm_io_frames = 120000, sampling_rate = 48000\<rparr>\<rparr>"

definition demo_ops :: "nat compress_ops" where
  "demo_ops =
     \<lparr>ops_open = (\<lambda>crd device fl node w. ((3, 7), w)),
      ops_close = (\<lambda>dat w. w),
      ioctl_version = (\<lambda>dat w. ((0, 257), w)),
      ioctl_get_caps = (\<lambda>dat w. ((0, demo_caps), w)),
      ioctl_avail = (\<lambda>dat w. ((0, demo_avail), w)),
      ioctl_tstamp = (\<lambda>dat w. ((0, tstamp demo_avail), w)),
      ioctl_set_params = (\<lambda>dat params w. (0, w)),
      ioctl_set_metadata = (\<lambda>dat m w. (0, w)),
      ioctl_ctl = (\<lambda>dat cmd w. (0, w)),
      ops_read = (\<lambda>dat cbuf n w. (n, w)),
      ops_write = (\<lambda>dat cbuf n w. (n, w)),
      ops_poll = (\<lambda>dat events timeout_ms w. ((1, events), w))\<rparr>"

definition demo_env :: "nat env" where
  "demo_env =
     \<lparr>snd_utils_get_dev_node = (\<lambda>crd device w. (11, w)),
      snd_utils_get_node_type = (\<lambda>node w. (0, w)),
      snd_utils_put_dev_node = (\<lambda>node w. w),
      compr_hw_ops = demo_ops,
      compr_plug_ops = demo_ops,
      calloc = (\<lambda>w. (Some (fst w), (fst w + 1, snd w)))\<rparr>"

definition demo_codec :: snd_codec where
  "demo_codec = \<lparr>codec_id = 3, codec_rest = 0\<rparr>"

definition demo_sys :: "nat sys" where
  "demo_sys = \<lparr>world = (1, 0), trace = [], bad_compress = bad_compress_init, heap = (\<lambda>a. None),
                codec_mem = (\<lambda>p. if p = 21 then Some demo_codec else None)\<rparr>"

definition demo_handle :: compress where
  "demo_handle =
     \<lparr>fd = 3, flags = COMPRESS_IN, error = ([], 0),
      config = Some \<lparr>fragment_size = 1024, fragments = 8, codec = 21\<rparr>,
      running = 1, max_poll_wait_ms = DEFAULT_MAX_POLL_WAIT_MS, nonblocking = 0,
      gapless_metadata = 0, next_track = 0, ops = Some HW, data = 7, snd_node = 11\<rparr>"

text \<open>Variants of the sample device: one request answered differently.\<close>

definition version0_env :: "nat env" where
  "version0_env = demo_env\<lparr>compr_hw_ops := demo_ops\<lparr>ioctl_version := (\<lambda>dat w. ((0, 0), w))\<rparr>\<rparr>"

definition demo_mdata :: compr_gapless_mdata where
  "demo_mdata = \<lparr>encoder_delay = 576, encoder_padding = 1152\<rparr>"

definition push_fails_env :: "nat env" where
  "push_fails_env = demo_env\<lparr>compr_hw_ops := demo_ops\<lparr>ioctl_set_metadata := (\<lambda>dat m w. (- 1, (fst w, EIO)))\<rparr>\<rparr>"

definition version256_env :: "nat env" where
  "version256_env = demo_env\<lparr>compr_hw_ops := demo_ops\<lparr>ioctl_version := (\<lambda>dat w. ((0, 256), w))\<rparr>\<rparr>"

definition rate0_env :: "nat env" where
  "rate0_env = demo_env\<lparr>compr_hw_ops := demo_ops\<lparr>ioctl_avail :=
     (\<lambda>dat w. ((0, \<lparr>avail = 4096, tstamp = \<lparr>pcm_io_frames = 120000, sampling_rate = 0\<rparr>\<rparr>), w))\<rparr>\<rparr>"

definition open_fails_env :: "nat env" where
  "open_fails_env = demo_env\<lparr>compr_hw_ops := demo_ops\<lparr>ops_open :=
     (\<lambda>crd device fl node w. ((- 1, 0), (fst w, ENODEV)))\<rparr>\<rparr>"

text \<open>
  A request to open with "don't care" buffering, and the state of the process after
  \<^verbatim>\<open>compress_open\<close> has served it on the sample device.
\<close>

definition dont_care_config :: compr_config where
  "dont_care_config = \<lparr>fragment_size = 0, fragments = 0, codec = 21\<rparr>"

definition opened_sys :: "nat sys" where
  "opened_sys =
     \<lparr>world = (3, 0),
      trace = [EvCalloc, EvCalloc, EvGetDevNode 0 0, EvGetNodeType 11, EvOpen HW 0 0 COMPRESS_IN 11,
               EvGetCaps 7,
               EvSetParams 7 \<lparr>buffer_fragment_size = 1024, buffer_fragments = 8,
                              params_codec = demo_codec\<rparr>],
      bad_compress = bad_compress_init,
      heap = (\<lambda>a. if a = 1 then Some (demo_handle\<lparr>running := 0\<rparr>) else None),
      codec_mem = (\<lambda>p. if p = 21 then Some demo_codec else None)\<rparr>"

















section \<open>What a call leaves unchanged\<close>

text \<open>A call may rewrite the error buffer of the handle and nothing else of it.\<close>

definition same_but_error :: "compress \<Rightarrow> compress \<Rightarrow> bool" where
  "same_but_error c c' = (\<exists>e. c' = c\<lparr>error := e\<rparr>)"

lemma same_but_error_refl: "same_but_error c c"
  unfolding same_but_error_def by (rule exI[of _ "error c"]) simp

lemma same_but_error_upd: "same_but_error c (c\<lparr>error := e\<rparr>)"
  unfolding same_but_error_def by blast

lemma transfer_loop_rule:
  assumes "transfer_loop dir b c frag st = Some y"
    and "I st"
    and step: "\<And>st st'. I st \<Longrightarrow> fst st \<noteq> 0 \<Longrightarrow> loop_body dir b c frag st = Inr st' \<Longrightarrow> I st'"
    and fin: "\<And>cbuf tot s. I (0, cbuf, tot, s) \<Longrightarrow> Q (tot, c, s)"
    and leave: "\<And>st r. I st \<Longrightarrow> fst st \<noteq> 0 \<Longrightarrow> loop_body dir b c frag st = Inl r \<Longrightarrow> Q r"
  shows "Q y"
proof -
  have "(\<forall>I Q. I st \<longrightarrow>
           (\<forall>st st'. I st \<longrightarrow> fst st \<noteq> 0 \<longrightarrow> loop_body dir b c frag st = Inr st' \<longrightarrow> I st') \<longrightarrow>
           (\<forall>cbuf tot s. I (0, cbuf, tot, s) \<longrightarrow> Q (tot, c, s)) \<longrightarrow>
           (\<forall>st r. I st \<longrightarrow> fst st \<noteq> 0 \<longrightarrow> loop_body dir b c frag st = Inl r \<longrightarrow> Q r) \<longrightarrow> Q y)"
    using assms(1)
  proof (induction rule: transfer_loop.raw_induct[rotated, consumes 1])
    case (1 loop dir b c frag st y)
    note IH = "1"(1) and body = "1"(2)
    show ?case
    proof (intro allI impI)
      fix I Q
      assume I: "I st"
        and step: "\<forall>st st'. I st \<longrightarrow> fst st \<noteq> 0 \<longrightarrow> loop_body dir b c frag st = Inr st' \<longrightarrow> I st'"
        and fin: "\<forall>cbuf tot s. I (0, cbuf, tot, s) \<longrightarrow> Q (tot, c, s)"
        and leave: "\<forall>st r. I st \<longrightarrow> fst st \<noteq> 0 \<longrightarrow> loop_body dir b c frag st = Inl r \<longrightarrow> Q r"
      obtain sz cbuf tot s where st: "st = (sz, cbuf, tot, s)" by (cases st)
      show "Q y"
      proof (cases "sz = 0")
        case True
        with body st have "y = (tot, c, s)" by simp
        with fin[rule_format, of cbuf tot s] I st True show ?thesis by simp
      next
        case False
        show ?thesis
        proof (cases "loop_body dir b c frag st")
          case (Inl r)
          with body st False have "y = r" by simp
          moreover have "fst st \<noteq> 0" using st False by simp
          ultimately show ?thesis using leave[rule_format, of st r] I Inl by simp
        next
          case (Inr st')
          with body st False have run: "loop dir b c frag st' = Some y" by simp
          have "fst st \<noteq> 0" using st False by simp
          with step[rule_format, of st st'] I Inr have I': "I st'" by simp
          from IH[OF run] I' step fin leave show ?thesis by blast
        qed
      qed
    qed
  qed
  with assms show ?thesis by blast
qed

lemma transfer_frame:
  "transfer dir b c av st = Inl (r, c', s') \<Longrightarrow> same_but_error c c'"
  by (auto simp: transfer_def oops_at_def Let_def same_but_error_refl same_but_error_upd
      split: prod.splits if_splits)

lemma loop_body_frame:
  "loop_body dir b c frag st = Inl (r, c', s') \<Longrightarrow> same_but_error c c'"
  by (auto simp: loop_body_def oops_at_def Let_def same_but_error_refl same_but_error_upd
      split: prod.splits if_splits dest: transfer_frame)

lemma transfer_loop_frame:
  assumes "transfer_loop dir b c frag st = Some (r, c', s')"
  shows "same_but_error c c'"
proof -
  have "same_but_error c (fst (snd (r, c', s')))"
    by (rule transfer_loop_rule[OF assms, where I = "\<lambda>_. True" and Q = "\<lambda>y. same_but_error c (fst (snd y))"])
       (auto simp: same_but_error_refl dest: loop_body_frame)
  then show ?thesis by simp
qed

lemma compress_xfer_frame:
  "compress_xfer dir env c n s = Some (Returned (r, c', s')) \<Longrightarrow> same_but_error c c'"
  by (auto simp: compress_xfer_def oops_at_def same_but_error_refl same_but_error_upd
      split: option.splits if_splits dest: transfer_loop_frame)


lemmas op_defs =
  compress_start_def compress_stop_def compress_pause_def compress_resume_def
  compress_drain_def compress_partial_drain_def compress_next_track_def
  compress_set_gapless_metadata_def compress_set_codec_params_def
  compress_get_hpointer_def compress_get_tstamp_def compress_wait_def
  compress_set_max_poll_wait_def compress_nonblock_def get_compress_version_def
  compress_write_def compress_read_def

lemmas demo_defs = demo_env_def demo_ops_def demo_sys_def demo_handle_def demo_codec_def
  demo_caps_def demo_avail_def

lemmas eval_defs = api_def op_defs oops_at_def via_def via_unit_def via_result_def codec_at_def
  ops_of_def backend_ops_def
  primitive_def primitive_event_def poll_events_def failure_text_def to_transfer_def direction_flag_def
  is_compress_running_def is_compress_ready_def set_errno_def errno_def succeeded_gapless_def
  word_sle_eq word_sless_alt

lemma api_frame:
  assumes "api env x c s = Some (Returned (r, c1, s1))"
  shows "fd c1 = fd c \<and> (running c \<noteq> 0 \<longrightarrow> running c1 \<noteq> 0)"
  using assms
  by (cases x)
     (auto simp: api_def op_defs oops_at_def via_def Let_def same_but_error_def
       split: if_splits option.splits prod.splits exec.splits dest!: compress_xfer_frame)

lemma api_gapless:
  assumes "api env x c s = Some (Returned (r, c1, s1))"
    and "\<not> succeeded_gapless (x, r)" and "gapless_metadata c = 0"
  shows "gapless_metadata c1 = 0"
  using assms
  by (cases x)
     (auto simp: api_def op_defs oops_at_def via_def Let_def same_but_error_def succeeded_gapless_def
       split: if_splits option.splits prod.splits exec.splits dest!: compress_xfer_frame)

lemma api_next_track:
  assumes "api env x c s = Some (Returned (r, c1, s1))" and "next_track c1 \<noteq> 0"
  shows "(x = NextTrack \<and> r = 0) \<or> (next_track c \<noteq> 0 \<and> \<not> (x = PartialDrain \<and> r = 0))"
  using assms
  by (cases x)
     (auto simp: api_def op_defs oops_at_def via_def Let_def same_but_error_def
       split: if_splits option.splits prod.splits exec.splits dest!: compress_xfer_frame)


lemma run_keeps_unarmed:
  "run env cs c s = Some (Returned (h, c', s')) \<Longrightarrow> \<forall>e\<in>set h. \<not> succeeded_gapless e \<Longrightarrow>
   is_compress_running c \<Longrightarrow> gapless_metadata c = 0 \<Longrightarrow>
   is_compress_running c' \<and> gapless_metadata c' = 0"
proof (induction cs arbitrary: c s h)
  case Nil
  then show ?case by simp
next
  case (Cons x xs)
  from Cons.prems(1) obtain r c1 s1 h1 where
    step: "api env x c s = Some (Returned (r, c1, s1))" and
    rest: "run env xs c1 s1 = Some (Returned (h1, c', s'))" and
    h: "h = (x, r) # h1"
    by (auto split: option.splits exec.splits)
  from h Cons.prems(2) have quiet: "\<not> succeeded_gapless (x, r)" "\<forall>e\<in>set h1. \<not> succeeded_gapless e"
    by simp_all
  from api_frame[OF step] Cons.prems(3) have "is_compress_running c1"
    by (simp add: is_compress_running_def)
  moreover from api_gapless[OF step quiet(1) Cons.prems(4)] have "gapless_metadata c1 = 0" .
  ultimately show ?case using Cons.IH[OF rest quiet(2)] by simp
qed

lemma run_pending:
  "run env cs c s = Some (Returned (h, c', s')) \<Longrightarrow> (next_track c \<noteq> 0 \<longrightarrow> p) \<Longrightarrow>
   next_track c' \<noteq> 0 \<Longrightarrow> pending_after p h"
proof (induction cs arbitrary: c s h p)
  case Nil
  then show ?case by simp
next
  case (Cons x xs)
  from Cons.prems(1) obtain r c1 s1 h1 where
    step: "api env x c s = Some (Returned (r, c1, s1))" and
    rest: "run env xs c1 s1 = Some (Returned (h1, c', s'))" and
    h: "h = (x, r) # h1"
    by (auto split: option.splits exec.splits)
  let ?p = "if x = NextTrack \<and> r = 0 then True else if x = PartialDrain \<and> r = 0 then False else p"
  have "next_track c1 \<noteq> 0 \<longrightarrow> ?p"
    using api_next_track[OF step] Cons.prems(2) by auto
  from Cons.IH[OF rest this Cons.prems(3)] h show ?case by simp
qed

section \<open>Gapless hand-over\<close>

text \<open>
  Claim C1. \<^verbatim>\<open>compress_next_track\<close> returns 0 only on a running handle whose
  gapless-metadata flag is set, and then sets the next-track flag and clears the
  gapless-metadata flag. After that, whatever calls follow on the handle (all of them
  returning), as long as none of them is a \<^verbatim>\<open>compress_set_gapless_metadata\<close> that
  returned 0, a further \<^verbatim>\<open>compress_next_track\<close> fails with \<^verbatim>\<open>EPERM\<close>, "metadata not
  set", and issues no request to the device.
\<close>

theorem next_track_one_shot:
  assumes "compress_next_track env c s = Returned (0, c1, s1)"
    and "run env cs c1 s1 = Some (Returned (h, c2, s2))"
    and "\<forall>e\<in>set h. \<not> succeeded_gapless e"
  shows "is_compress_running c \<and> gapless_metadata c \<noteq> 0 \<and>
         next_track c1 = 1 \<and> gapless_metadata c1 = 0 \<and>
         compress_next_track env c2 s2 =
           Returned (- 1, c2\<lparr>error := (''metadata not set'', EPERM)\<rparr>, set_errno EPERM s2)"
proof -
  from assms(1) have first: "is_compress_running c \<and> gapless_metadata c \<noteq> 0 \<and>
      next_track c1 = 1 \<and> gapless_metadata c1 = 0 \<and> fd c1 = fd c \<and> running c1 = running c"
    by (auto simp: compress_next_track_def oops_at_def via_def Let_def
        split: if_splits option.splits prod.splits)
  then have "is_compress_running c1" by (simp add: is_compress_running_def)
  from run_keeps_unarmed[OF assms(2,3) this] first
  have "is_compress_running c2" "gapless_metadata c2 = 0" by simp_all
  then have "compress_next_track env c2 s2 =
      Returned (- 1, c2\<lparr>error := (''metadata not set'', EPERM)\<rparr>, set_errno EPERM s2)"
    by (simp add: compress_next_track_def oops_at_def)
  with first show ?thesis by simp
qed

theorem next_track_one_shot_witness:
  "compress_next_track demo_env (demo_handle\<lparr>gapless_metadata := 1\<rparr>) demo_sys =
     Returned (0, demo_handle\<lparr>next_track := 1\<rparr>,
               demo_sys\<lparr>trace := [EvCtl 7 SNDRV_COMPRESS_NEXT_TRACK]\<rparr>) \<and>
   run demo_env [Pause, Resume] (demo_handle\<lparr>next_track := 1\<rparr>)
       (demo_sys\<lparr>trace := [EvCtl 7 SNDRV_COMPRESS_NEXT_TRACK]\<rparr>) =
     Some (Returned ([(Pause, 0), (Resume, 0)], demo_handle\<lparr>next_track := 1\<rparr>,
       demo_sys\<lparr>trace := [EvCtl 7 SNDRV_COMPRESS_NEXT_TRACK, EvCtl 7 SNDRV_COMPRESS_PAUSE,
                            EvCtl 7 SNDRV_COMPRESS_RESUME]\<rparr>)) \<and>
   compress_next_track demo_env (demo_handle\<lparr>next_track := 1\<rparr>)
       (demo_sys\<lparr>trace := [EvCtl 7 SNDRV_COMPRESS_NEXT_TRACK, EvCtl 7 SNDRV_COMPRESS_PAUSE,
                            EvCtl 7 SNDRV_COMPRESS_RESUME]\<rparr>) =
     Returned (- 1, demo_handle\<lparr>next_track := 1, error := (''metadata not set'', EPERM)\<rparr>,
       set_errno EPERM (demo_sys\<lparr>trace := [EvCtl 7 SNDRV_COMPRESS_NEXT_TRACK,
                            EvCtl 7 SNDRV_COMPRESS_PAUSE, EvCtl 7 SNDRV_COMPRESS_RESUME]\<rparr>))"
proof -
  have a: "compress_next_track demo_env (demo_handle\<lparr>gapless_metadata := 1\<rparr>) demo_sys =
     Returned (0, demo_handle\<lparr>next_track := 1\<rparr>,
               demo_sys\<lparr>trace := [EvCtl 7 SNDRV_COMPRESS_NEXT_TRACK]\<rparr>)"
    by (simp add: eval_defs demo_defs)
  have b: "run demo_env [Pause, Resume] (demo_handle\<lparr>next_track := 1\<rparr>)
       (demo_sys\<lparr>trace := [EvCtl 7 SNDRV_COMPRESS_NEXT_TRACK]\<rparr>) =
     Some (Returned ([(Pause, 0), (Resume, 0)], demo_handle\<lparr>next_track := 1\<rparr>,
       demo_sys\<lparr>trace := [EvCtl 7 SNDRV_COMPRESS_NEXT_TRACK, EvCtl 7 SNDRV_COMPRESS_PAUSE,
                            EvCtl 7 SNDRV_COMPRESS_RESUME]\<rparr>))"
    by (simp add: eval_defs demo_defs)
  have c: "\<forall>e\<in>set [(Pause, 0), (Resume, 0)]. \<not> succeeded_gapless e"
    by (simp add: succeeded_gapless_def)
  from next_track_one_shot[OF a b c] a b show ?thesis by simp
qed


text \<open>
  Claim C2. \<^verbatim>\<open>compress_partial_drain\<close> fails, with an error recorded and no request
  issued to the device, unless the handle is running and its next-track flag is set;
  when it returns 0 it has issued the one partial-drain request and cleared the flag.
  On a handle whose flag started clear, as after \<^verbatim>\<open>compress_open\<close>, it returns 0 only
  if in the calls made since then \<^verbatim>\<open>compress_next_track\<close> succeeded after the last
  successful \<^verbatim>\<open>compress_partial_drain\<close>.
\<close>

theorem partial_drain_needs_next_track:
  "(\<not> (is_compress_running c \<and> next_track c \<noteq> 0) \<longrightarrow>
      (\<exists>msg e. compress_partial_drain env c s =
                 Returned (- 1, c\<lparr>error := (msg, e)\<rparr>, set_errno e s))) \<and>
   (compress_partial_drain env c s = Returned (0, c', s') \<longrightarrow>
      is_compress_running c \<and> next_track c \<noteq> 0 \<and> next_track c' = 0 \<and>
      trace s' = trace s @ [EvCtl (data c) SNDRV_COMPRESS_PARTIAL_DRAIN]) \<and>
   (next_track c0 = 0 \<and> run env cs c0 s0 = Some (Returned (h, c, s)) \<and>
    compress_partial_drain env c s = Returned (0, c', s') \<longrightarrow> pending_after False h)"
proof (intro conjI impI)
  assume "\<not> (is_compress_running c \<and> next_track c \<noteq> 0)"
  then show "\<exists>msg e. compress_partial_drain env c s =
                 Returned (- 1, c\<lparr>error := (msg, e)\<rparr>, set_errno e s)"
    by (auto simp: compress_partial_drain_def oops_at_def)
next
  assume ok: "compress_partial_drain env c s = Returned (0, c', s')"
  then show "is_compress_running c" "next_track c \<noteq> 0" "next_track c' = 0"
    "trace s' = trace s @ [EvCtl (data c) SNDRV_COMPRESS_PARTIAL_DRAIN]"
    by (auto simp: compress_partial_drain_def oops_at_def via_def Let_def
        split: if_splits option.splits prod.splits)
next
  assume a: "next_track c0 = 0 \<and> run env cs c0 s0 = Some (Returned (h, c, s)) \<and>
    compress_partial_drain env c s = Returned (0, c', s')"
  then have "next_track c \<noteq> 0"
    by (auto simp: compress_partial_drain_def oops_at_def via_def Let_def
        split: if_splits option.splits prod.splits)
  with a run_pending[of env cs c0 s0 h c s False] show "pending_after False h" by simp
qed



theorem partial_drain_needs_next_track_witness:
  "\<not> (is_compress_running (demo_handle\<lparr>running := 0, next_track := 1\<rparr>) \<and>
       next_track (demo_handle\<lparr>running := 0, next_track := 1\<rparr>) \<noteq> 0) \<and>
   (\<exists>msg e. compress_partial_drain demo_env (demo_handle\<lparr>running := 0, next_track := 1\<rparr>) demo_sys =
      Returned (- 1, demo_handle\<lparr>running := 0, next_track := 1, error := (msg, e)\<rparr>,
                set_errno e demo_sys)) \<and>
   next_track (demo_handle\<lparr>gapless_metadata := 1\<rparr>) = 0 \<and>
   run demo_env [NextTrack] (demo_handle\<lparr>gapless_metadata := 1\<rparr>) demo_sys =
     Some (Returned ([(NextTrack, 0)], demo_handle\<lparr>next_track := 1\<rparr>,
                     demo_sys\<lparr>trace := [EvCtl 7 SNDRV_COMPRESS_NEXT_TRACK]\<rparr>)) \<and>
   compress_partial_drain demo_env (demo_handle\<lparr>next_track := 1\<rparr>)
       (demo_sys\<lparr>trace := [EvCtl 7 SNDRV_COMPRESS_NEXT_TRACK]\<rparr>) =
     Returned (0, demo_handle,
       demo_sys\<lparr>trace := [EvCtl 7 SNDRV_COMPRESS_NEXT_TRACK, EvCtl 7 SNDRV_COMPRESS_PARTIAL_DRAIN]\<rparr>) \<and>
   is_compress_running (demo_handle\<lparr>next_track := 1\<rparr>) \<and>
   pending_after False [(NextTrack, 0)]"
proof -
  let ?off = "demo_handle\<lparr>running := 0, next_track := 1\<rparr>"
  let ?s1 = "demo_sys\<lparr>trace := [EvCtl 7 SNDRV_COMPRESS_NEXT_TRACK]\<rparr>"
  let ?s2 = "demo_sys\<lparr>trace := [EvCtl 7 SNDRV_COMPRESS_NEXT_TRACK, EvCtl 7 SNDRV_COMPRESS_PARTIAL_DRAIN]\<rparr>"
  have off: "\<not> (is_compress_running ?off \<and> next_track ?off \<noteq> 0)"
    by (simp add: eval_defs demo_defs)
  have flag: "next_track (demo_handle\<lparr>gapless_metadata := 1\<rparr>) = 0"
    by (simp add: demo_defs)
  have r: "run demo_env [NextTrack] (demo_handle\<lparr>gapless_metadata := 1\<rparr>) demo_sys =
     Some (Returned ([(NextTrack, 0)], demo_handle\<lparr>next_track := 1\<rparr>, ?s1))"
    by (simp add: eval_defs demo_defs)
  have d: "compress_partial_drain demo_env (demo_handle\<lparr>next_track := 1\<rparr>) ?s1 =
     Returned (0, demo_handle, ?s2)"
    by (simp add: eval_defs demo_defs)
  from partial_drain_needs_next_track[of ?off demo_env demo_sys] off
  have "\<exists>msg e. compress_partial_drain demo_env ?off demo_sys =
      Returned (- 1, ?off\<lparr>error := (msg, e)\<rparr>, set_errno e demo_sys)"
    by blast
  moreover from partial_drain_needs_next_track[of "demo_handle\<lparr>next_track := 1\<rparr>" demo_env ?s1
      demo_handle ?s2 "demo_handle\<lparr>gapless_metadata := 1\<rparr>" "[NextTrack]" demo_sys "[(NextTrack, 0)]"]
    flag r d
  have "is_compress_running (demo_handle\<lparr>next_track := 1\<rparr>) \<and> pending_after False [(NextTrack, 0)]"
    by blast
  ultimately show ?thesis using off flag r d by simp
qed


text \<open>
  Claim C5, as the code has it. \<^verbatim>\<open>compress_set_gapless_metadata\<close> fails with
  \<^verbatim>\<open>ENODEV\<close> on a handle that is not device-ready. When the device answers the version
  query with a version from 1 to 256 it fails with \<^verbatim>\<open>ENXIO\<close>, "gapless apis not
  supported in kernel"; when the device answers with a version of 0 or below, it
  returns -1 and records no error at all. Whenever it returns a value other than 0 the
  gapless-metadata flag is left as it was, so a clear flag stays clear; it returns 0,
  with the flag set, only after the padding push and then the delay push both
  returned 0.
\<close>

theorem set_gapless_metadata_arms_on_full_success:
  "(\<not> is_compress_ready c \<longrightarrow>
      compress_set_gapless_metadata env c mdata s =
        Returned (- 1, c\<lparr>error := (''device not ready'', ENODEV)\<rparr>, set_errno ENODEV s)) \<and>
   (is_compress_ready c \<and> ops_of env c = Some b \<and>
    via (ioctl_version b (data c)) (EvVersion (data c)) s = ((0, v), s1) \<longrightarrow>
      (v \<le>s 0 \<longrightarrow> compress_set_gapless_metadata env c mdata s = Returned (- 1, c, s1)) \<and>
      (0 <s v \<and> v <s SNDRV_PROTOCOL_VERSION_0_1_1 \<longrightarrow>
         compress_set_gapless_metadata env c mdata s =
           Returned (- 1, c\<lparr>error := (''gapless apis not supported in kernel'', ENXIO)\<rparr>,
                     set_errno ENXIO s1))) \<and>
   (compress_set_gapless_metadata env c mdata s = Returned (r, c', s') \<longrightarrow>
      (r = 0 \<or> r = - 1) \<and>
      (r \<noteq> 0 \<longrightarrow> gapless_metadata c' = gapless_metadata c) \<and>
      (r = 0 \<longrightarrow> gapless_metadata c' = 1 \<and>
         (\<exists>b s1 s2.
            ops_of env c = Some b \<and>
            s1 = snd (via (ioctl_version b (data c)) (EvVersion (data c)) s) \<and>
            via (ioctl_set_metadata b (data c)
                   \<lparr>key = SNDRV_COMPRESS_ENCODER_PADDING, value0 = encoder_padding mdata\<rparr>)
                (EvSetMetadata (data c)
                   \<lparr>key = SNDRV_COMPRESS_ENCODER_PADDING, value0 = encoder_padding mdata\<rparr>) s1 = (0, s2) \<and>
            via (ioctl_set_metadata b (data c)
                   \<lparr>key = SNDRV_COMPRESS_ENCODER_DELAY, value0 = encoder_delay mdata\<rparr>)
                (EvSetMetadata (data c)
                   \<lparr>key = SNDRV_COMPRESS_ENCODER_DELAY, value0 = encoder_delay mdata\<rparr>) s2 = (0, s'))))"
proof (intro conjI impI)
  assume "\<not> is_compress_ready c"
  then show "compress_set_gapless_metadata env c mdata s =
        Returned (- 1, c\<lparr>error := (''device not ready'', ENODEV)\<rparr>, set_errno ENODEV s)"
    by (simp add: compress_set_gapless_metadata_def oops_at_def)
next
  assume a: "is_compress_ready c \<and> ops_of env c = Some b \<and>
    via (ioctl_version b (data c)) (EvVersion (data c)) s = ((0, v), s1)"
  then have ver: "get_compress_version env c s = Returned (v, c, s1)"
    by (simp add: get_compress_version_def)
  { assume "v \<le>s 0"
    with a ver show "compress_set_gapless_metadata env c mdata s = Returned (- 1, c, s1)"
      by (simp add: compress_set_gapless_metadata_def) }
  { assume "0 <s v \<and> v <s SNDRV_PROTOCOL_VERSION_0_1_1"
    with a ver show "compress_set_gapless_metadata env c mdata s =
           Returned (- 1, c\<lparr>error := (''gapless apis not supported in kernel'', ENXIO)\<rparr>,
                     set_errno ENXIO s1)"
      by (auto simp: compress_set_gapless_metadata_def oops_at_def word_sle_eq word_sless_alt) }
next
  assume r: "compress_set_gapless_metadata env c mdata s = Returned (r, c', s')"
  then show "r = 0 \<or> r = - 1"
    by (auto simp: compress_set_gapless_metadata_def get_compress_version_def oops_at_def Let_def
        split: if_splits option.splits prod.splits exec.splits)
  { assume "r \<noteq> 0"
    with r show "gapless_metadata c' = gapless_metadata c"
      by (auto simp: compress_set_gapless_metadata_def get_compress_version_def oops_at_def Let_def
          split: if_splits option.splits prod.splits exec.splits) }
  { assume "r = 0"
    with r show "gapless_metadata c' = 1"
      by (auto simp: compress_set_gapless_metadata_def get_compress_version_def oops_at_def Let_def
          split: if_splits option.splits prod.splits exec.splits)
    from r \<open>r = 0\<close> show "\<exists>b s1 s2.
            ops_of env c = Some b \<and>
            s1 = snd (via (ioctl_version b (data c)) (EvVersion (data c)) s) \<and>
            via (ioctl_set_metadata b (data c)
                   \<lparr>key = SNDRV_COMPRESS_ENCODER_PADDING, value0 = encoder_padding mdata\<rparr>)
                (EvSetMetadata (data c)
                   \<lparr>key = SNDRV_COMPRESS_ENCODER_PADDING, value0 = encoder_padding mdata\<rparr>) s1 = (0, s2) \<and>
            via (ioctl_set_metadata b (data c)
                   \<lparr>key = SNDRV_COMPRESS_ENCODER_DELAY, value0 = encoder_delay mdata\<rparr>)
                (EvSetMetadata (data c)
                   \<lparr>key = SNDRV_COMPRESS_ENCODER_DELAY, value0 = encoder_delay mdata\<rparr>) s2 = (0, s')"
      by (auto simp: compress_set_gapless_metadata_def get_compress_version_def oops_at_def Let_def
          split: if_splits option.splits prod.splits exec.splits) }
qed


theorem set_gapless_metadata_arms_on_full_success_witness:
  "\<not> is_compress_ready (demo_handle\<lparr>fd := - 1\<rparr>) \<and>
   compress_set_gapless_metadata demo_env (demo_handle\<lparr>fd := - 1\<rparr>) demo_mdata demo_sys =
     Returned (- 1, demo_handle\<lparr>fd := - 1, error := (''device not ready'', ENODEV)\<rparr>,
               set_errno ENODEV demo_sys) \<and>
   is_compress_ready demo_handle \<and> ops_of version256_env demo_handle = Some (compr_hw_ops version256_env) \<and>
   via (ioctl_version (compr_hw_ops version256_env) (data demo_handle)) (EvVersion (data demo_handle)) demo_sys =
     ((0, 256), demo_sys\<lparr>trace := [EvVersion 7]\<rparr>) \<and>
   (0 :: c_int) <s 256 \<and> (256 :: c_int) <s SNDRV_PROTOCOL_VERSION_0_1_1 \<and>
   compress_set_gapless_metadata version256_env demo_handle demo_mdata demo_sys =
     Returned (- 1, demo_handle\<lparr>error := (''gapless apis not supported in kernel'', ENXIO)\<rparr>,
               set_errno ENXIO (demo_sys\<lparr>trace := [EvVersion 7]\<rparr>)) \<and>
   compress_set_gapless_metadata demo_env demo_handle demo_mdata demo_sys =
     Returned (0, demo_handle\<lparr>gapless_metadata := 1\<rparr>,
               demo_sys\<lparr>trace := [EvVersion 7,
                 EvSetMetadata 7 \<lparr>key = SNDRV_COMPRESS_ENCODER_PADDING, value0 = 1152\<rparr>,
                 EvSetMetadata 7 \<lparr>key = SNDRV_COMPRESS_ENCODER_DELAY, value0 = 576\<rparr>]\<rparr>) \<and>
   gapless_metadata (demo_handle\<lparr>gapless_metadata := 1\<rparr>) = 1 \<and>
   gapless_metadata (demo_handle\<lparr>error := (''gapless apis not supported in kernel'', ENXIO)\<rparr>) =
     gapless_metadata demo_handle"
proof -
  let ?bad = "demo_handle\<lparr>fd := - 1\<rparr>"
  let ?s1 = "demo_sys\<lparr>trace := [EvVersion 7]\<rparr>"
  let ?s3 = "demo_sys\<lparr>trace := [EvVersion 7,
                 EvSetMetadata 7 \<lparr>key = SNDRV_COMPRESS_ENCODER_PADDING, value0 = 1152\<rparr>,
                 EvSetMetadata 7 \<lparr>key = SNDRV_COMPRESS_ENCODER_DELAY, value0 = 576\<rparr>]\<rparr>"
  have nr: "\<not> is_compress_ready ?bad"
    by (simp add: eval_defs demo_defs)
  have rd: "is_compress_ready demo_handle \<and>
      ops_of version256_env demo_handle = Some (compr_hw_ops version256_env) \<and>
      via (ioctl_version (compr_hw_ops version256_env) (data demo_handle)) (EvVersion (data demo_handle)) demo_sys =
        ((0, 256), ?s1)"
    by (simp add: eval_defs demo_defs version256_env_def)
  have v: "(0 :: c_int) <s 256 \<and> (256 :: c_int) <s SNDRV_PROTOCOL_VERSION_0_1_1"
    by (simp add: word_sless_alt)
  have ok: "compress_set_gapless_metadata demo_env demo_handle demo_mdata demo_sys =
     Returned (0, demo_handle\<lparr>gapless_metadata := 1\<rparr>, ?s3)"
    by (simp add: eval_defs demo_defs demo_mdata_def)
  note th = set_gapless_metadata_arms_on_full_success
  from th[where c = ?bad and env = demo_env and mdata = demo_mdata and s = demo_sys] nr
  have 1: "compress_set_gapless_metadata demo_env ?bad demo_mdata demo_sys =
     Returned (- 1, ?bad\<lparr>error := (''device not ready'', ENODEV)\<rparr>, set_errno ENODEV demo_sys)"
    by blast
  from th[where c = demo_handle and env = version256_env and b = "compr_hw_ops version256_env" and s = demo_sys
      and v = 256 and ?s1.0 = ?s1 and mdata = demo_mdata] rd v
  have 2: "compress_set_gapless_metadata version256_env demo_handle demo_mdata demo_sys =
     Returned (- 1, demo_handle\<lparr>error := (''gapless apis not supported in kernel'', ENXIO)\<rparr>,
               set_errno ENXIO ?s1)"
    by blast
  from th[where c = demo_handle and env = demo_env and s = demo_sys and mdata = demo_mdata and r = 0
      and c' = "demo_handle\<lparr>gapless_metadata := 1\<rparr>" and s' = ?s3] ok
  have 3: "gapless_metadata (demo_handle\<lparr>gapless_metadata := 1\<rparr>) = 1" by blast
  from th[where c = demo_handle and env = version256_env and s = demo_sys and mdata = demo_mdata and r = "- 1"
      and c' = "demo_handle\<lparr>error := (''gapless apis not supported in kernel'', ENXIO)\<rparr>"
      and s' = "set_errno ENXIO ?s1"] 2
  have 4: "gapless_metadata (demo_handle\<lparr>error := (''gapless apis not supported in kernel'', ENXIO)\<rparr>) =
     gapless_metadata demo_handle" by simp
  from nr 1 rd v 2 ok 3 4 show ?thesis by simp
qed

text \<open>
  The claim as stated fails twice. A device-ready handle whose device reports version
  0, below the gapless minimum of 257, gets -1 with the error buffer and \<^verbatim>\<open>errno\<close>
  untouched: nothing is reported as not supported. And a handle whose flag was set by an
  earlier call keeps the flag set when a later call fails in the first push: after a
  failure the flag is not false but what it was.
\<close>

theorem gapless_failure_counterexample:
  "compress_set_gapless_metadata version0_env demo_handle demo_mdata demo_sys =
     Returned (- 1, demo_handle, demo_sys\<lparr>trace := [EvVersion 7]\<rparr>) \<and>
   is_compress_ready demo_handle \<and>
   (0 :: c_int) <s SNDRV_PROTOCOL_VERSION_0_1_1 \<and>
   snd (error demo_handle) \<noteq> ENXIO \<and>
   errno (demo_sys\<lparr>trace := [EvVersion 7]\<rparr>) \<noteq> ENXIO \<and>
   compress_set_gapless_metadata push_fails_env (demo_handle\<lparr>gapless_metadata := 1\<rparr>) demo_mdata demo_sys =
     Returned (- 1, demo_handle\<lparr>gapless_metadata := 1,
                                error := (''can't set metadata for stream'' @ [CHR 0x0A], EIO)\<rparr>,
               demo_sys\<lparr>world := (1, EIO),
                        trace := [EvVersion 7, EvSetMetadata 7
                          \<lparr>key = SNDRV_COMPRESS_ENCODER_PADDING, value0 = 1152\<rparr>]\<rparr>) \<and>
   gapless_metadata (demo_handle\<lparr>gapless_metadata := 1,
                                error := (''can't set metadata for stream'' @ [CHR 0x0A], EIO)\<rparr>) \<noteq> 0"
  by (simp add: eval_defs demo_defs version0_env_def push_fails_env_def demo_mdata_def)

text \<open>
  Claim C4 against the code. \<^verbatim>\<open>compress_set_codec_params\<close> fails with \<^verbatim>\<open>ENODEV\<close>
  when the handle is not device-ready or its next-track flag is clear. On every other
  handle it never gets to push the codec: with a null codec pointer it reads through
  the null pointer, and with a pointer to a descriptor it copies the whole
  descriptor onto the pointer member of the handle's configuration block and runs
  past the end of that block. So no call returns 0: there is no successful call, no
  stored codec that equals the argument, and no call that clears the next-track flag.
\<close>

theorem set_codec_params_overruns_config_block:
  "(\<not> is_compress_ready c \<or> next_track c = 0 \<longrightarrow>
      compress_set_codec_params env c codec_ptr s =
        Returned (- 1, c\<lparr>error := (''device not ready'', ENODEV)\<rparr>, set_errno ENODEV s)) \<and>
   (is_compress_ready c \<and> next_track c \<noteq> 0 \<and> config c = Some cfg \<longrightarrow>
      (codec_at s codec_ptr = None \<longrightarrow>
         compress_set_codec_params env c codec_ptr s = Fault BadPointer) \<and>
      (codec_at s codec_ptr = Some cd \<longrightarrow>
         compress_set_codec_params env c codec_ptr s = Fault HeapOverrun)) \<and>
   compress_set_codec_params env c codec_ptr s \<noteq> Returned (0, c', s')"
  by (auto simp: compress_set_codec_params_def oops_at_def split: option.splits)

text \<open>
  The failing input: the running sample handle with the next-track flag set, and the
  caller's descriptor at address 21. The same call with a null pointer, and on a
  handle that is ready but not running.
\<close>

theorem set_codec_params_overruns_config_block_witness:
  "is_compress_running (demo_handle\<lparr>next_track := 1\<rparr>) \<and>
   codec_at demo_sys 21 = Some demo_codec \<and>
   compress_set_codec_params demo_env (demo_handle\<lparr>next_track := 1\<rparr>) 21 demo_sys = Fault HeapOverrun \<and>
   codec_at demo_sys 0 = None \<and>
   compress_set_codec_params demo_env (demo_handle\<lparr>next_track := 1\<rparr>) 0 demo_sys = Fault BadPointer \<and>
   \<not> is_compress_running (demo_handle\<lparr>running := 0, next_track := 1\<rparr>) \<and>
   compress_set_codec_params demo_env (demo_handle\<lparr>running := 0, next_track := 1\<rparr>) 21 demo_sys =
     Fault HeapOverrun \<and>
   compress_set_codec_params demo_env demo_handle 21 demo_sys =
     Returned (- 1, demo_handle\<lparr>error := (''device not ready'', ENODEV)\<rparr>, set_errno ENODEV demo_sys)"
proof -
  let ?armed = "demo_handle\<lparr>next_track := 1\<rparr>"
  let ?idle = "demo_handle\<lparr>running := 0, next_track := 1\<rparr>"
  let ?cfg = "\<lparr>fragment_size = 1024, fragments = 8, codec = 21\<rparr>"
  note th = set_codec_params_overruns_config_block
  have run: "is_compress_running ?armed" by (simp add: eval_defs demo_defs)
  have idle: "\<not> is_compress_running ?idle" by (simp add: eval_defs demo_defs)
  have at: "codec_at demo_sys 21 = Some demo_codec" by (simp add: codec_at_def demo_defs)
  have null: "codec_at demo_sys 0 = None" by (simp add: codec_at_def)
  have g: "is_compress_ready ?armed \<and> next_track ?armed \<noteq> 0 \<and> config ?armed = Some ?cfg"
    by (simp add: eval_defs demo_defs)
  have gi: "is_compress_ready ?idle \<and> next_track ?idle \<noteq> 0 \<and> config ?idle = Some ?cfg"
    by (simp add: eval_defs demo_defs)
  have off: "\<not> is_compress_ready demo_handle \<or> next_track demo_handle = 0"
    by (simp add: demo_defs)
  from th[where c = ?armed and env = demo_env and codec_ptr = 21 and s = demo_sys and cfg = ?cfg
      and cd = demo_codec] g at
  have 1: "compress_set_codec_params demo_env ?armed 21 demo_sys = Fault HeapOverrun" by blast
  from th[where c = ?armed and env = demo_env and codec_ptr = 0 and s = demo_sys and cfg = ?cfg] g null
  have 2: "compress_set_codec_params demo_env ?armed 0 demo_sys = Fault BadPointer" by blast
  from th[where c = ?idle and env = demo_env and codec_ptr = 21 and s = demo_sys and cfg = ?cfg
      and cd = demo_codec] gi at
  have 3: "compress_set_codec_params demo_env ?idle 21 demo_sys = Fault HeapOverrun" by blast
  from th[where c = demo_handle and env = demo_env and codec_ptr = 21 and s = demo_sys] off
  have 4: "compress_set_codec_params demo_env demo_handle 21 demo_sys =
     Returned (- 1, demo_handle\<lparr>error := (''device not ready'', ENODEV)\<rparr>, set_errno ENODEV demo_sys)"
    by blast
  show ?thesis by (intro conjI; fact)
qed

lemma int_div_le: "0 \<le> x \<Longrightarrow> x div k \<le> (x :: int)"
  by (cases "x = 0") (simp_all add: int_div_le_self)

lemma sint_small:
  fixes w :: u64
  assumes "uint w < 2 ^ 63"
  shows "sint w = uint w"
proof -
  have "- (2 ^ 63) \<le> uint w"
    by (rule order_trans[of _ 0]) simp_all
  then have "signed_take_bit (63 :: nat) (uint w) = uint w"
    using assms by (rule signed_take_bit_int_eq_self)
  then show ?thesis by (simp add: sint_uint)
qed

lemma hpointer_seconds:
  "sint (ucast ((f :: c_uint) div r) :: u64) = uint f div uint r"
proof -
  have a: "uint (ucast (f div r) :: u64) = uint f div uint r"
    by (simp add: uint_div_distrib uint_up_ucast is_up)
  have "uint f div uint r \<le> uint f"
    by (simp add: int_div_le)
  with uint_lt2p[of f] have "uint f div uint r < 2 ^ 63" by simp
  with a have "uint (ucast (f div r) :: u64) < 2 ^ 63" by simp
  from sint_small[OF this] a show ?thesis by simp
qed

lemma hpointer_nanoseconds:
  assumes "r \<noteq> 0"
  shows "sint ((ucast ((f :: c_uint) mod r) :: u64) * 1000000000 div ucast r) =
         uint f mod uint r * 1000000000 div uint r"
proof -
  have a: "uint (ucast (f mod r) :: u64) = uint f mod uint r"
    by (simp add: uint_mod_distrib uint_up_ucast is_up)
  have lt: "uint f mod uint r < 2 ^ 32"
    using uint_lt2p[of "f mod r"] by (simp add: uint_mod_distrib)
  then have "uint (ucast (f mod r) :: u64) * uint (1000000000 :: u64) < 2 ^ 64"
    using a by simp
  then have b: "uint ((ucast (f mod r) :: u64) * 1000000000) = uint f mod uint r * 1000000000"
    using a by (simp add: uint_mult_lem[THEN iffD1])
  have c: "uint (ucast r :: u64) = uint r"
    by (simp add: uint_up_ucast is_up)
  have u: "uint ((ucast (f mod r) :: u64) * 1000000000 div ucast r) =
      uint f mod uint r * 1000000000 div uint r"
    by (simp add: uint_div_distrib b c)
  have "0 \<le> uint (f mod r)" by simp
  then have "0 \<le> uint f mod uint r" by (simp add: uint_mod_distrib)
  then have "uint f mod uint r * 1000000000 div uint r \<le> uint f mod uint r * 1000000000"
    by (intro int_div_le) simp
  with lt have "uint f mod uint r * 1000000000 div uint r < 2 ^ 63" by simp
  with u have "uint ((ucast (f mod r) :: u64) * 1000000000 div ucast r) < 2 ^ 63" by simp
  from sint_small[OF this] u show ?thesis by simp
qed

text \<open>
  Claim C8. \<^verbatim>\<open>compress_get_hpointer\<close> fails with \<^verbatim>\<open>ENODEV\<close> on a handle that is not
  device-ready and with \<^verbatim>\<open>ENODATA\<close> when the device reports a sampling rate of 0. For
  every frame count \<open>f\<close> and rate \<open>r \<noteq> 0\<close> the device reports, it returns 0 and
  stores seconds \<open>f div r\<close> and nanoseconds \<open>(f mod r) * 1000000000 div r\<close>, as
  integers, with no wrap-around in the 64-bit intermediate.
\<close>

theorem get_hpointer_timestamp:
  "(\<not> is_compress_ready c \<longrightarrow>
      compress_get_hpointer env c s =
        Returned ((- 1, c\<lparr>error := (''device not ready'', ENODEV)\<rparr>, set_errno ENODEV s), None)) \<and>
   (is_compress_ready c \<and> ops_of env c = Some b \<and>
    via (ioctl_avail b (data c)) (EvAvail (data c)) s = ((0, kavail), s1) \<longrightarrow>
      (sampling_rate (tstamp kavail) = 0 \<longrightarrow>
         compress_get_hpointer env c s =
           Returned ((- 1, c\<lparr>error := (''sample rate unknown'', ENODATA)\<rparr>, set_errno ENODATA s1), None)) \<and>
      (sampling_rate (tstamp kavail) \<noteq> 0 \<longrightarrow>
         (\<exists>ts. compress_get_hpointer env c s = Returned ((0, c, s1), Some (ucast (avail kavail), ts)) \<and>
               sint (tv_sec ts) =
                 uint (pcm_io_frames (tstamp kavail)) div uint (sampling_rate (tstamp kavail)) \<and>
               sint (tv_nsec ts) =
                 uint (pcm_io_frames (tstamp kavail)) mod uint (sampling_rate (tstamp kavail))
                   * 1000000000 div uint (sampling_rate (tstamp kavail)))))"
proof (intro conjI impI)
  assume "\<not> is_compress_ready c"
  then show "compress_get_hpointer env c s =
        Returned ((- 1, c\<lparr>error := (''device not ready'', ENODEV)\<rparr>, set_errno ENODEV s), None)"
    by (simp add: compress_get_hpointer_def oops_at_def)
next
  assume a: "is_compress_ready c \<and> ops_of env c = Some b \<and>
    via (ioctl_avail b (data c)) (EvAvail (data c)) s = ((0, kavail), s1)"
  { assume "sampling_rate (tstamp kavail) = 0"
    with a show "compress_get_hpointer env c s =
           Returned ((- 1, c\<lparr>error := (''sample rate unknown'', ENODATA)\<rparr>, set_errno ENODATA s1), None)"
      by (simp add: compress_get_hpointer_def oops_at_def) }
  { assume nz: "sampling_rate (tstamp kavail) \<noteq> 0"
    let ?f = "pcm_io_frames (tstamp kavail)" and ?r = "sampling_rate (tstamp kavail)"
    let ?ts = "\<lparr>tv_sec = (ucast (?f div ?r) :: u64),
               tv_nsec = (ucast (?f mod ?r) :: u64) * 1000000000 div ucast ?r\<rparr>"
    from a nz have "compress_get_hpointer env c s = Returned ((0, c, s1), Some (ucast (avail kavail), ?ts))"
      by (simp add: compress_get_hpointer_def Let_def)
    moreover have "sint (tv_sec ?ts) = uint ?f div uint ?r"
      by (simp add: hpointer_seconds)
    moreover have "sint (tv_nsec ?ts) = uint ?f mod uint ?r * 1000000000 div uint ?r"
      using nz by (simp add: hpointer_nanoseconds)
    ultimately show "\<exists>ts. compress_get_hpointer env c s = Returned ((0, c, s1), Some (ucast (avail kavail), ts)) \<and>
               sint (tv_sec ts) = uint ?f div uint ?r \<and>
               sint (tv_nsec ts) = uint ?f mod uint ?r * 1000000000 div uint ?r"
      by blast }
qed


theorem get_hpointer_timestamp_witness:
  "\<not> is_compress_ready (demo_handle\<lparr>fd := - 1\<rparr>) \<and>
   compress_get_hpointer demo_env (demo_handle\<lparr>fd := - 1\<rparr>) demo_sys =
     Returned ((- 1, demo_handle\<lparr>fd := - 1, error := (''device not ready'', ENODEV)\<rparr>,
                set_errno ENODEV demo_sys), None) \<and>
   is_compress_ready demo_handle \<and>
   compress_get_hpointer rate0_env demo_handle demo_sys =
     Returned ((- 1, demo_handle\<lparr>error := (''sample rate unknown'', ENODATA)\<rparr>,
                set_errno ENODATA (demo_sys\<lparr>trace := [EvAvail 7]\<rparr>)), None) \<and>
   (\<exists>ts. compress_get_hpointer demo_env demo_handle demo_sys =
           Returned ((0, demo_handle, demo_sys\<lparr>trace := [EvAvail 7]\<rparr>), Some (4096, ts)) \<and>
         sint (tv_sec ts) = 2 \<and> sint (tv_nsec ts) = 500000000)"
proof -
  let ?bad = "demo_handle\<lparr>fd := - 1\<rparr>"
  let ?s1 = "demo_sys\<lparr>trace := [EvAvail 7]\<rparr>"
  let ?k0 = "\<lparr>avail = 4096, tstamp = \<lparr>pcm_io_frames = 120000, sampling_rate = 0\<rparr>\<rparr>"
  note th = get_hpointer_timestamp
  have nr: "\<not> is_compress_ready ?bad"
    by (simp add: eval_defs demo_defs)
  have rdy: "is_compress_ready demo_handle"
    by (simp add: eval_defs demo_defs)
  have q0: "ops_of rate0_env demo_handle = Some (compr_hw_ops rate0_env) \<and>
      via (ioctl_avail (compr_hw_ops rate0_env) (data demo_handle)) (EvAvail (data demo_handle)) demo_sys =
        ((0, ?k0), ?s1)"
    by (simp add: eval_defs demo_defs rate0_env_def)
  have q1: "ops_of demo_env demo_handle = Some demo_ops \<and>
      via (ioctl_avail demo_ops (data demo_handle)) (EvAvail (data demo_handle)) demo_sys =
        ((0, demo_avail), ?s1)"
    by (simp add: eval_defs demo_defs)
  from th[where c = ?bad and env = demo_env and s = demo_sys] nr
  have 1: "compress_get_hpointer demo_env ?bad demo_sys =
     Returned ((- 1, ?bad\<lparr>error := (''device not ready'', ENODEV)\<rparr>, set_errno ENODEV demo_sys), None)"
    by blast
  from th[where c = demo_handle and env = rate0_env and s = demo_sys and b = "compr_hw_ops rate0_env"
      and kavail = ?k0 and ?s1.0 = ?s1] rdy q0
  have 2: "compress_get_hpointer rate0_env demo_handle demo_sys =
     Returned ((- 1, demo_handle\<lparr>error := (''sample rate unknown'', ENODATA)\<rparr>,
                set_errno ENODATA ?s1), None)"
    by simp
  have nz: "sampling_rate (tstamp demo_avail) \<noteq> 0"
    by (simp add: demo_defs)
  from th[where c = demo_handle and env = demo_env and s = demo_sys and b = demo_ops
      and kavail = demo_avail and ?s1.0 = ?s1] rdy q1 nz
  have "\<exists>ts. compress_get_hpointer demo_env demo_handle demo_sys =
           Returned ((0, demo_handle, ?s1), Some (ucast (avail demo_avail), ts)) \<and>
         sint (tv_sec ts) =
           uint (pcm_io_frames (tstamp demo_avail)) div uint (sampling_rate (tstamp demo_avail)) \<and>
         sint (tv_nsec ts) =
           uint (pcm_io_frames (tstamp demo_avail)) mod uint (sampling_rate (tstamp demo_avail))
             * 1000000000 div uint (sampling_rate (tstamp demo_avail))"
    by blast
  then have 3: "\<exists>ts. compress_get_hpointer demo_env demo_handle demo_sys =
           Returned ((0, demo_handle, ?s1), Some (4096, ts)) \<and>
         sint (tv_sec ts) = 2 \<and> sint (tv_nsec ts) = 500000000"
    by (simp add: demo_avail_def)
  show ?thesis by (intro conjI; fact)
qed


section \<open>Open and close\<close>

lemma open_device_ready:
  "open_device env crd device fl s = Inr (a, k, c, s1) \<Longrightarrow>
   is_compress_ready c \<and> running c = 0 \<and> max_poll_wait_ms c = DEFAULT_MAX_POLL_WAIT_MS \<and>
   gapless_metadata c = 0 \<and> next_track c = 0 \<and> ops c = Some k \<and> flags c = fl"
  by (auto simp: open_device_def via_def Let_def zeroed_def is_compress_ready_def word_sle_eq word_sless_alt
      split: prod.splits option.splits if_splits)

lemma open_device_codec_mem:
  "open_device env crd device fl s = Inr (a, k, c, s1) \<Longrightarrow> codec_mem s1 = codec_mem s"
  by (auto simp: open_device_def via_def Let_def split: prod.splits option.splits if_splits)

lemma compress_open_cases:
  "case compress_open env crd device fl config_ptr s of
     Fault f \<Rightarrow> f = BadPointer \<and> (\<exists>cfg. config_ptr = Some cfg \<and> codec_at s (codec cfg) = None)
   | Returned (p, cfg_out, s') \<Rightarrow>
       p = BadCompress \<or> (\<exists>a c. p = Ptr a \<and> heap s' a = Some c \<and> is_compress_ready c)"
proof (cases config_ptr)
  case None
  then show ?thesis by (simp add: compress_open_def)
next
  case (Some cfg)
  show ?thesis
  proof (cases "open_device env crd device fl s")
    case (Inl s1)
    with Some show ?thesis by (simp add: compress_open_def)
  next
    case (Inr y)
    then obtain a k c s1 where od: "open_device env crd device fl s = Inr (a, k, c, s1)"
      by (cases y) auto
    obtain r caps s2 where
      gc: "via (ioctl_get_caps (backend_ops env k) (data c)) (EvGetCaps (data c)) s1 = ((r, caps), s2)"
      by (metis prod.exhaust)
    define cfg1 where "cfg1 = (if fragment_size cfg = 0 \<or> fragments cfg = 0 then
                                 cfg\<lparr>fragment_size := min_fragment_size caps,
                                     fragments := max_fragments caps\<rparr>
                               else cfg)"
    have same: "codec cfg1 = codec cfg" by (simp add: cfg1_def)
    from gc have "codec_mem s2 = codec_mem s1" by (auto simp: via_def split: prod.splits)
    with open_device_codec_mem[OF od] have mem: "codec_at s2 (codec cfg1) = codec_at s (codec cfg)"
      by (simp add: codec_at_def same)
    show ?thesis
    proof (cases "r \<noteq> 0")
      case True
      with Some od gc show ?thesis by (simp add: compress_open_def)
    next
      case False
      show ?thesis
      proof (cases "codec_at s (codec cfg)")
        case None
        with mem have "codec_at s2 (codec cfg1) = None" by simp
        with Some od gc False None show ?thesis
          by (simp add: compress_open_def Let_def cfg1_def)
      next
        case (Some cd)
        with mem have cd: "codec_at s2 (codec cfg1) = Some cd" by simp
        define params where "params = \<lparr>buffer_fragment_size = fragment_size cfg1,
                                 buffer_fragments = fragments cfg1, params_codec = cd\<rparr>"
        obtain r1 s3 where
          sp: "via (ioctl_set_params (backend_ops env k) (data c) params) (EvSetParams (data c) params) s2 = (r1, s3)"
          by (metis prod.exhaust)
        from open_device_ready[OF od] have "is_compress_ready (c\<lparr>config := Some cfg1\<rparr>)"
          by (simp add: is_compress_ready_def)
        with \<open>config_ptr = Some cfg\<close> od gc False cd sp show ?thesis
          by (simp add: compress_open_def Let_def cfg1_def[symmetric] params_def[symmetric])
      qed
    qed
  qed
qed

lemma close_times_bad: "close_times n env BadCompress s = Returned s"
  by (induction n) (simp_all add: compress_close_def)

lemma demo_open:
  "compress_open demo_env 0 0 COMPRESS_IN (Some dont_care_config) demo_sys =
     Returned (Ptr 1, Some \<lparr>fragment_size = 1024, fragments = 8, codec = 21\<rparr>, opened_sys)"
  by (simp add: compress_open_def open_device_def eval_defs demo_defs zeroed_def select_backend_def
      dont_care_config_def opened_sys_def fun_eq_iff Let_def)

text \<open>
  Claim C7. When \<^verbatim>\<open>compress_open\<close> returns a handle other than the sentinel, the
  new object is device-ready, not running, has the default maximum poll wait of 20000
  ms and both the gapless-metadata and the next-track flag clear. If the caller asked
  for a fragment size of 0 or a fragment count of 0, its configuration (and the
  caller's own, which the function updates) holds the minimum fragment size and the
  maximum fragment count of the capabilities the device reported to this call;
  otherwise it holds what the caller asked for. The codec pointer is the caller's.
\<close>

theorem open_negotiates_defaults:
  assumes "compress_open env crd device fl (Some cfg) s = Returned (Ptr a, cfg_out, s')"
  shows "\<exists>k c0 s1 caps s2 c cfg1.
           open_device env crd device fl s = Inr (a, k, c0, s1) \<and>
           via (ioctl_get_caps (backend_ops env k) (data c0)) (EvGetCaps (data c0)) s1 = ((0, caps), s2) \<and>
           heap s' a = Some c \<and> is_compress_ready c \<and>
           running c = 0 \<and> max_poll_wait_ms c = DEFAULT_MAX_POLL_WAIT_MS \<and>
           gapless_metadata c = 0 \<and> next_track c = 0 \<and>
           config c = Some cfg1 \<and> cfg_out = Some cfg1 \<and> codec cfg1 = codec cfg \<and>
           (if fragment_size cfg = 0 \<or> fragments cfg = 0
            then fragment_size cfg1 = min_fragment_size caps \<and> fragments cfg1 = max_fragments caps
            else fragment_size cfg1 = fragment_size cfg \<and> fragments cfg1 = fragments cfg)"
proof -
  from assms obtain k c0 s1 where od: "open_device env crd device fl s = Inr (a, k, c0, s1)"
    by (auto simp: compress_open_def Let_def split: sum.splits prod.splits if_splits option.splits)
  obtain r caps s2 where
    gc: "via (ioctl_get_caps (backend_ops env k) (data c0)) (EvGetCaps (data c0)) s1 = ((r, caps), s2)"
    by (metis prod.exhaust)
  define cfg1 where "cfg1 = (if fragment_size cfg = 0 \<or> fragments cfg = 0 then
                               cfg\<lparr>fragment_size := min_fragment_size caps,
                                   fragments := max_fragments caps\<rparr>
                             else cfg)"
  from assms od gc have r0: "r = 0"
    by (auto simp: compress_open_def Let_def split: if_splits prod.splits option.splits)
  from assms od gc r0 obtain cd where cd: "codec_at s2 (codec cfg1) = Some cd"
    by (auto simp: compress_open_def Let_def cfg1_def split: if_splits prod.splits option.splits)
  define params where "params = \<lparr>buffer_fragment_size = fragment_size cfg1,
                               buffer_fragments = fragments cfg1, params_codec = cd\<rparr>"
  obtain r1 s3 where
    sp: "via (ioctl_set_params (backend_ops env k) (data c0) params) (EvSetParams (data c0) params) s2 = (r1, s3)"
    by (metis prod.exhaust)
  from assms od gc sp r0 cd have res: "r1 = 0 \<and> cfg_out = Some cfg1 \<and>
      s' = s3\<lparr>heap := (heap s3)(a := Some (c0\<lparr>config := Some cfg1\<rparr>))\<rparr>"
    by (auto simp: compress_open_def Let_def cfg1_def params_def split: if_splits)
  let ?c = "c0\<lparr>config := Some cfg1\<rparr>"
  from open_device_ready[OF od] have c0: "is_compress_ready ?c \<and> running ?c = 0 \<and>
      max_poll_wait_ms ?c = DEFAULT_MAX_POLL_WAIT_MS \<and> gapless_metadata ?c = 0 \<and> next_track ?c = 0"
    by (simp add: is_compress_ready_def)
  have shape: "codec cfg1 = codec cfg \<and>
      (if fragment_size cfg = 0 \<or> fragments cfg = 0
       then fragment_size cfg1 = min_fragment_size caps \<and> fragments cfg1 = max_fragments caps
       else fragment_size cfg1 = fragment_size cfg \<and> fragments cfg1 = fragments cfg)"
    by (simp add: cfg1_def)
  from res have hp: "heap s' a = Some ?c" by simp
  from od gc r0 hp c0 res shape show ?thesis
    by (intro exI[of _ k] exI[of _ c0] exI[of _ s1] exI[of _ caps] exI[of _ s2] exI[of _ ?c] exI[of _ cfg1])
       simp
qed


theorem open_negotiates_defaults_witness:
  "compress_open demo_env 0 0 COMPRESS_IN (Some dont_care_config) demo_sys =
     Returned (Ptr 1, Some \<lparr>fragment_size = 1024, fragments = 8, codec = 21\<rparr>, opened_sys) \<and>
   fragment_size dont_care_config = 0 \<and>
   (\<exists>c cfg1. heap opened_sys 1 = Some c \<and> is_compress_ready c \<and> running c = 0 \<and>
      max_poll_wait_ms c = DEFAULT_MAX_POLL_WAIT_MS \<and> gapless_metadata c = 0 \<and> next_track c = 0 \<and>
      config c = Some cfg1 \<and> fragment_size cfg1 = min_fragment_size demo_caps \<and>
      fragments cfg1 = max_fragments demo_caps)"
proof -
  have z: "fragment_size dont_care_config = 0" by (simp add: dont_care_config_def)
  from open_negotiates_defaults[OF demo_open] obtain k c0 s1 caps s2 c cfg1 where
    everything: "open_device demo_env 0 0 COMPRESS_IN demo_sys = Inr (1, k, c0, s1) \<and>
      via (ioctl_get_caps (backend_ops demo_env k) (data c0)) (EvGetCaps (data c0)) s1 = ((0, caps), s2) \<and>
      heap opened_sys 1 = Some c \<and> is_compress_ready c \<and>
      running c = 0 \<and> max_poll_wait_ms c = DEFAULT_MAX_POLL_WAIT_MS \<and>
      gapless_metadata c = 0 \<and> next_track c = 0 \<and>
      config c = Some cfg1 \<and>
      Some \<lparr>fragment_size = 1024, fragments = 8, codec = 21\<rparr> = Some cfg1 \<and>
      codec cfg1 = codec dont_care_config \<and>
      (if fragment_size dont_care_config = 0 \<or> fragments dont_care_config = 0
       then fragment_size cfg1 = min_fragment_size caps \<and> fragments cfg1 = max_fragments caps
       else fragment_size cfg1 = fragment_size dont_care_config \<and> fragments cfg1 = fragments dont_care_config)"
    by (elim exE)
  then have gc: "via (ioctl_get_caps (backend_ops demo_env k) (data c0)) (EvGetCaps (data c0)) s1 = ((0, caps), s2)"
    and c: "heap opened_sys 1 = Some c" "is_compress_ready c" "running c = 0"
       "max_poll_wait_ms c = DEFAULT_MAX_POLL_WAIT_MS" "gapless_metadata c = 0" "next_track c = 0"
       "config c = Some cfg1"
    and sh: "if fragment_size dont_care_config = 0 \<or> fragments dont_care_config = 0
         then fragment_size cfg1 = min_fragment_size caps \<and> fragments cfg1 = max_fragments caps
         else fragment_size cfg1 = fragment_size dont_care_config \<and> fragments cfg1 = fragments dont_care_config"
    by blast+
  from gc have "caps = demo_caps"
    by (cases k) (simp_all add: via_def backend_ops_def demo_env_def demo_ops_def)
  with sh z have "fragment_size cfg1 = min_fragment_size demo_caps \<and> fragments cfg1 = max_fragments demo_caps"
    by simp
  with c demo_open z show ?thesis by blast
qed

text \<open>
  Claim C9. \<^verbatim>\<open>compress_close\<close> on the sentinel returns with the state of the process
  as it was: no node released, no connection closed, nothing freed, and so any number
  of times. Every \<^verbatim>\<open>compress_open\<close> that returns, returns either the sentinel or a
  pointer to a live, device-ready object, so the handle of a failed open is always the
  sentinel. The one open that does not return is the one whose configuration has a
  codec pointer that is null or points to no descriptor: the function reads through
  it unchecked, once the device is open.
\<close>

theorem close_sentinel_noop:
  "compress_close env BadCompress s = Returned s \<and>
   close_times n env BadCompress s = Returned s \<and>
   (case compress_open env crd device fl config_ptr s of
      Fault f \<Rightarrow> f = BadPointer \<and> (\<exists>cfg. config_ptr = Some cfg \<and> codec_at s (codec cfg) = None)
    | Returned (p, cfg_out, s') \<Rightarrow>
        p = BadCompress \<or> (\<exists>a c. p = Ptr a \<and> heap s' a = Some c \<and> is_compress_ready c))"
  using compress_open_cases[where env = env and crd = crd and device = device and fl = fl
      and config_ptr = config_ptr and s = s]
  by (simp add: close_times_bad compress_close_def)

theorem close_sentinel_noop_witness:
  "compress_open demo_env 0 0 0 (Some dont_care_config) demo_sys =
     Returned (BadCompress, Some dont_care_config,
      demo_sys\<lparr>world := (3, EINVAL), trace := [EvCalloc, EvCalloc],
               bad_compress := bad_compress_init
                 \<lparr>error := (''can't deduce device direction from given flags'', EINVAL)\<rparr>\<rparr>) \<and>
   close_times 2 demo_env BadCompress
     (demo_sys\<lparr>world := (3, EINVAL), trace := [EvCalloc, EvCalloc],
               bad_compress := bad_compress_init
                 \<lparr>error := (''can't deduce device direction from given flags'', EINVAL)\<rparr>\<rparr>) =
     Returned (demo_sys\<lparr>world := (3, EINVAL), trace := [EvCalloc, EvCalloc],
               bad_compress := bad_compress_init
                 \<lparr>error := (''can't deduce device direction from given flags'', EINVAL)\<rparr>\<rparr>)"
proof -
  let ?s = "demo_sys\<lparr>world := (3, EINVAL), trace := [EvCalloc, EvCalloc],
               bad_compress := bad_compress_init
                 \<lparr>error := (''can't deduce device direction from given flags'', EINVAL)\<rparr>\<rparr>"
  have o: "compress_open demo_env 0 0 0 (Some dont_care_config) demo_sys =
     Returned (BadCompress, Some dont_care_config, ?s)"
    by (simp add: compress_open_def open_device_def oops_bad_def eval_defs demo_defs zeroed_def
        dont_care_config_def)
  from close_sentinel_noop[where env = demo_env and s = ?s and n = 2] have "close_times 2 demo_env BadCompress ?s = Returned ?s"
    by blast
  with o show ?thesis by blast
qed


section \<open>Capability probe: what is released\<close>

lemma scan_codecs_iff:
  "scan_codecs caps (Some d) i =
     Returned (\<exists>j. i \<le> j \<and> j < unat (num_codecs caps) \<and> codecs caps j = codec_id d)"
proof (induction "unat (num_codecs caps) - i" arbitrary: i)
  case 0
  then have "\<not> i < unat (num_codecs caps)" by simp
  then have "scan_codecs caps (Some d) i = Returned False"
    by (simp add: scan_codecs.simps[of caps "Some d" i])
  moreover from \<open>\<not> i < unat (num_codecs caps)\<close>
  have "\<not> (\<exists>j. i \<le> j \<and> j < unat (num_codecs caps) \<and> codecs caps j = codec_id d)"
    by auto
  ultimately show ?case by simp
next
  case (Suc m)
  then have lt: "i < unat (num_codecs caps)" by simp
  show ?case
  proof (cases "codecs caps i = codec_id d")
    case True
    with lt have "scan_codecs caps (Some d) i = Returned True"
      by (simp add: scan_codecs.simps[of caps "Some d" i])
    moreover from lt True have "\<exists>j. i \<le> j \<and> j < unat (num_codecs caps) \<and> codecs caps j = codec_id d"
      by blast
    ultimately show ?thesis by simp
  next
    case False
    with lt have "scan_codecs caps (Some d) i = scan_codecs caps (Some d) (Suc i)"
      by (simp add: scan_codecs.simps[of caps "Some d" i])
    also from Suc.hyps(2) have "m = unat (num_codecs caps) - Suc i" by simp
    then have "scan_codecs caps (Some d) (Suc i) =
        Returned (\<exists>j. Suc i \<le> j \<and> j < unat (num_codecs caps) \<and> codecs caps j = codec_id d)"
      by (rule Suc.hyps(1))
    also have "(\<exists>j. Suc i \<le> j \<and> j < unat (num_codecs caps) \<and> codecs caps j = codec_id d) \<longleftrightarrow>
        (\<exists>j. i \<le> j \<and> j < unat (num_codecs caps) \<and> codecs caps j = codec_id d)"
    proof
      assume "\<exists>j. Suc i \<le> j \<and> j < unat (num_codecs caps) \<and> codecs caps j = codec_id d"
      then obtain j where "Suc i \<le> j" "j < unat (num_codecs caps)" "codecs caps j = codec_id d" by blast
      then have "i \<le> j \<and> j < unat (num_codecs caps) \<and> codecs caps j = codec_id d" by simp
      then show "\<exists>j. i \<le> j \<and> j < unat (num_codecs caps) \<and> codecs caps j = codec_id d" ..
    next
      assume "\<exists>j. i \<le> j \<and> j < unat (num_codecs caps) \<and> codecs caps j = codec_id d"
      then obtain j where j: "i \<le> j" "j < unat (num_codecs caps)" "codecs caps j = codec_id d" by blast
      with False have "j \<noteq> i" by blast
      with j have "Suc i \<le> j \<and> j < unat (num_codecs caps) \<and> codecs caps j = codec_id d" by simp
      then show "\<exists>j. Suc i \<le> j \<and> j < unat (num_codecs caps) \<and> codecs caps j = codec_id d" ..
    qed
    finally show ?thesis .
  qed
qed

text \<open>
  Claim C10 at the input where it fails. When the backend's \<^verbatim>\<open>open\<close> returns a negative
  descriptor, \<^verbatim>\<open>is_codec_supported\<close> returns false straight away: the node it
  resolved is never handed to \<^verbatim>\<open>snd_utils_put_dev_node\<close>.
\<close>

theorem probe_leaks_node_on_open_failure:
  "is_codec_supported open_fails_env 0 0 COMPRESS_IN 21 demo_sys =
     Returned (False,
      demo_sys\<lparr>world := (1, ENODEV),
               trace := [EvGetDevNode 0 0, EvGetNodeType 11, EvOpen HW 0 0 COMPRESS_IN 0],
               bad_compress := bad_compress_init\<lparr>error := (''cannot open card %u, device %u'', ENODEV)\<rparr>\<rparr>) \<and>
   EvPutDevNode 11 \<notin> set [EvGetDevNode 0 0, EvGetNodeType 11, EvOpen HW 0 0 COMPRESS_IN 0]"
  by (simp add: is_codec_supported_def oops_bad_def eval_defs demo_defs open_fails_env_def
      select_backend_def)

text \<open>
  When the backend's \<^verbatim>\<open>open\<close> succeeds and the codec pointer is that of a descriptor,
  the probe does what the claim says: it queries the capabilities, releases the node,
  closes the connection, and answers true exactly when the query returned 0 and one of
  the first \<^verbatim>\<open>num_codecs\<close> entries is the codec's id.
\<close>

theorem probe_after_open_success:
  assumes "via (snd_utils_get_dev_node env crd device) (EvGetDevNode crd device) s = (node, s1)"
    and "via (snd_utils_get_node_type env node) (EvGetNodeType node) s1 = (ty, s2)"
    and "via (ops_open (backend_ops env (select_backend ty)) crd device fl 0)
             (EvOpen (select_backend ty) crd device fl 0) s2 = ((fd1, dat), s3)"
    and "0 \<le>s fd1"
    and "via (ioctl_get_caps (backend_ops env (select_backend ty)) dat) (EvGetCaps dat) s3 = ((r, caps), s4)"
    and "codec_at s codec_ptr = Some cd"
  shows "\<exists>s'. is_codec_supported env crd device fl codec_ptr s =
                Returned ((r = 0 \<and> (\<exists>j < unat (num_codecs caps). codecs caps j = codec_id cd)), s') \<and>
              trace s' =
                trace s @ [EvGetDevNode crd device, EvGetNodeType node,
                           EvOpen (select_backend ty) crd device fl 0, EvGetCaps dat,
                           EvPutDevNode node, EvClose dat]"
proof -
  from assms(4) have nf: "\<not> fd1 <s 0"
    by (simp add: word_sle_eq word_sless_alt)
  have tr: "trace s4 = trace s @ [EvGetDevNode crd device, EvGetNodeType node,
                      EvOpen (select_backend ty) crd device fl 0, EvGetCaps dat]"
    using assms(1,2,3,5) by (auto simp: via_def split: prod.splits)
  have "codec_mem s4 = codec_mem s"
    using assms(1,2,3,5) by (auto simp: via_def split: prod.splits)
  then have "codec_at s4 codec_ptr = codec_at s codec_ptr"
    by (simp add: codec_at_def)
  with assms(6) have cd: "codec_at s4 codec_ptr = Some cd"
    by simp
  show ?thesis
  proof (cases "r = 0")
    case True
    with assms(1,2,3,5) nf tr cd show ?thesis
      by (simp add: is_codec_supported_def is_codec_type_supported_def Let_def via_unit_def
          scan_codecs_iff)
  next
    case False
    with assms(1,2,3,5) nf tr show ?thesis
      by (simp add: is_codec_supported_def is_codec_type_supported_def Let_def via_unit_def
          oops_bad_def set_errno_def)
  qed
qed

section \<open>Flow-controlled transfer: the running total and the stopping conditions\<close>
























































end
